theory Spec2Isabelle
  imports Main "HOL-Library.Word"
begin

section \<open>Host values and the host execution context\<close>

text \<open>
  The binding of \<^verbatim>\<open>source/event_stream.c\<close> lives between a garbage-collected host
  (N-API) and a native event-stream connection. Host values are the arguments the
  exported functions receive. An external carries a data pointer; the model has one
  binding, so a non-null data pointer handed to \<^verbatim>\<open>connect\<close> or \<^verbatim>\<open>close\<close> denotes it.
  Numbers are integers here (the host's doubles are outside the model).
\<close>

type_synonym pointer = nat

datatype napi_value =
    JsUndefined
  | JsNull
  | JsNumber int
  | JsString string
  | JsFunction nat
  | JsObject "(string \<times> napi_value) list"
  | JsExternal "pointer option"

datatype napi_ref = Ref napi_value

text \<open>\<^verbatim>\<open>struct aws_event_stream_connection_event_data\<close> (the binding pointer is implicit).\<close>

record event_data =
  ev_error_code :: "32 word"
  ev_connection :: "nat option"

text \<open>
  The untyped pointers (\<^verbatim>\<open>void *\<close>) that reach a delivery function: null, the
  binding, or an event record.
\<close>

datatype context_ptr = ContextNull | ContextBinding | ContextEventData event_data

text \<open>
  A thread-safe function wraps the host function it was created from, under a name,
  and keeps the context pointer it was created with.
\<close>

datatype napi_threadsafe_function = Tsfn napi_value string context_ptr

text \<open>
  The host context decides the outcome of every N-API call the binding makes. A
  \<^verbatim>\<open>napi_env\<close> is the record of those outcomes; a null \<^verbatim>\<open>env\<close> (a delivery made
  while the host is shutting down) is \<open>None\<close>.
\<close>

record napi_env =
  get_cb_info_ok :: bool
  create_external_ok :: bool
  create_reference_ok :: "napi_value \<Rightarrow> bool"
  create_threadsafe_function_ok :: "napi_value \<Rightarrow> bool"
  string_new_from_napi_ok :: bool
  get_reference_value_ok :: "napi_ref \<Rightarrow> bool"
  create_uint32_ok :: bool
  dispatch_threadsafe_function_ok :: bool

text \<open>What an exported function hands back to the host: a value, or a pending exception.\<close>

datatype call_result = Returned napi_value | Threw string

text \<open>
  A fault ends the process: a failed fatal assertion, a reference count driven below
  zero, or a read through a pointer that does not point to what is read.
\<close>

datatype fault = FatalAssert string | RefCountUnderflow | InvalidMemoryAccess

section \<open>Messages and names\<close>

text \<open>
  The texts of the exceptions thrown to the host, of the fatal assertions, and the names
  the thread-safe functions are created under, as the source spells them.
\<close>

definition name_on_connection_setup :: string where
  "name_on_connection_setup = ''aws_event_stream_client_connection_on_connection_setup''"

definition name_on_connection_shutdown :: string where
  "name_on_connection_shutdown = ''aws_event_stream_client_connection_on_connection_shutdown''"

definition name_on_protocol_message :: string where
  "name_on_protocol_message = ''aws_event_stream_client_connection_on_protocol_message''"

definition ensure_dispatch_threadsafe_function :: string where
  "ensure_dispatch_threadsafe_function = ''aws_napi_dispatch_threadsafe_function''"

definition ensure_queue_threadsafe_function :: string where
  "ensure_queue_threadsafe_function = ''aws_napi_queue_threadsafe_function''"

definition assert_connection_not_null :: string where
  "assert_connection_not_null = ''binding->connection != NULL''"

definition assert_connection_null :: string where
  "assert_connection_null = ''binding->connection == NULL''"

definition assert_not_closed :: string where
  "assert_not_closed = ''binding->is_closed == false''"

definition close_err_extract :: string where
  "close_err_extract = ''aws_napi_event_stream_client_connection_close - Failed to extract connection binding from first argument''"

definition close_err_arguments :: string where
  "close_err_arguments = ''aws_napi_event_stream_client_connection_close - Failed to retrieve arguments''"

definition close_err_null :: string where
  "close_err_null = ''aws_napi_event_stream_client_connection_close - binding was null''"

definition close_err_count :: string where
  "close_err_count = ''aws_napi_event_stream_client_connection_close - needs exactly 1 argument''"

definition connect_err_extract :: string where
  "connect_err_extract = ''aws_napi_event_stream_client_connection_connect - Failed to extract connection binding from first argument''"

definition connect_err_arguments :: string where
  "connect_err_arguments = ''aws_napi_event_stream_client_connection_connect - Failed to extract parameter array''"

definition connect_err_null :: string where
  "connect_err_null = ''aws_napi_event_stream_client_connection_connect - binding was null''"

definition connect_err_closed :: string where
  "connect_err_closed = ''aws_napi_event_stream_client_connection_connect - connection already closed''"

definition connect_err_threadsafe_function :: string where
  "connect_err_threadsafe_function = ''aws_napi_event_stream_client_connection_connect - failed to create threadsafe callback function''"

definition connect_err_count :: string where
  "connect_err_count = ''aws_napi_event_stream_client_connection_connect - needs exactly 2 arguments''"

definition connect_err_synchronous :: string where
  "connect_err_synchronous = ''aws_napi_event_stream_client_connection_connect - synchronous failure invoking aws_event_stream_rpc_client_connection_connect''"

definition new_err_external :: string where
  "new_err_external = ''event_stream_client_connection_new - Failed to create n-api external''"

definition new_err_external_ref :: string where
  "new_err_external_ref = ''event_stream_client_connection_new - Failed to create one count reference to napi external''"

definition new_err_connection_ref :: string where
  "new_err_connection_ref = ''event_stream_client_connection_new - Failed to create reference to node event stream connection''"

definition new_err_tls_extract :: string where
  "new_err_tls_extract = ''event_stream_client_connection_new - Failed to extract tls_ctx from external''"

definition new_err_arguments :: string where
  "new_err_arguments = ''event_stream_client_connection_new - Failed to retrieve arguments''"

definition new_err_socket_null :: string where
  "new_err_socket_null = ''event_stream_client_connection_new - Null socket options''"

definition new_err_connection_null :: string where
  "new_err_connection_null = ''event_stream_client_connection_new - Required connection parameter is null''"

definition new_err_options_null :: string where
  "new_err_options_null = ''event_stream_client_connection_new - Required options parameter is null''"

definition new_err_socket_extract :: string where
  "new_err_socket_extract = ''event_stream_client_connection_new - Unable to extract socket_options from external''"

definition new_err_configuration :: string where
  "new_err_configuration = ''event_stream_client_connection_new - failed to initialize native connection configuration from js connection configuration''"

definition new_err_shutdown_threadsafe_function :: string where
  "new_err_shutdown_threadsafe_function = ''event_stream_client_connection_new - failed to initialize on_connection_shutdown event handler''"

definition new_err_message_threadsafe_function :: string where
  "new_err_message_threadsafe_function = ''event_stream_client_connection_new - failed to initialize on_protocol_message event handler''"

definition new_err_count :: string where
  "new_err_count = ''event_stream_client_connection_new - needs exactly 6 arguments''"

definition new_err_shutdown_null :: string where
  "new_err_shutdown_null = ''event_stream_client_connection_new - required on_connection_shutdown event handler is null''"

definition new_err_message_null :: string where
  "new_err_message_null = ''event_stream_client_connection_new - required on_protocol_message event handler is null''"

definition AWS_EVENT_STREAM_PROPERTY_NAME_HOST :: string where
  "AWS_EVENT_STREAM_PROPERTY_NAME_HOST = ''hostName''"

definition AWS_EVENT_STREAM_PROPERTY_NAME_PORT :: string where
  "AWS_EVENT_STREAM_PROPERTY_NAME_PORT = ''port''"

section \<open>The binding and the effects it has on its collaborators\<close>

datatype close_reason = AWS_CRT_NODEJS_ERROR_EVENT_STREAM_SETUP_ALREADY_CLOSED

text \<open>
  Everything the binding does to the native connection, to the host and to its own
  memory is appended to a trace, in program order.
\<close>

datatype effect =
    AcquireBinding
  | ReleaseBinding
  | NativeConnect bool
  | NativeClose nat close_reason
  | NativeRelease nat
  | HostSetupCallback "32 word"
  | HostShutdownCallback "32 word"
  | DeleteReference napi_ref
  | ReleaseThreadsafeFunction napi_threadsafe_function
  | StringDestroy
  | TlsCleanUp
  | MemReleaseBinding
  | MemReleaseEventData

text \<open>
  \<^verbatim>\<open>struct aws_event_stream_client_connection_binding\<close>. A native connection is a
  number, a null pointer is \<open>None\<close>. The socket and TLS options are kept as the pointer
  they were taken from (\<open>None\<close>: zero-initialised).
\<close>

record binding =
  ref_count :: nat
  connection :: "nat option"
  is_closed :: bool
  host :: "string option"
  port :: "16 word"
  socket_options :: "pointer option"
  tls_connection_options :: "pointer option"
  using_tls :: bool
  node_event_stream_client_connection_ref :: "napi_ref option"
  node_event_stream_client_connection_external_ref :: "napi_ref option"
  on_connection_setup :: "napi_threadsafe_function option"
  on_connection_shutdown :: "napi_threadsafe_function option"
  on_protocol_message :: "napi_threadsafe_function option"

text \<open>
  The world is the binding, the trace, and the queues of the three dispatchers, which
  carry payloads from the native threads to the host context (a protocol message is
  a number).
\<close>

record world = binding +
  trace :: "effect list"
  setup_queue :: "event_data list"
  shutdown_queue :: "event_data list"
  message_queue :: "nat list"

definition emit :: "effect list \<Rightarrow> world \<Rightarrow> world" where
  "emit es w = w\<lparr>trace := trace w @ es\<rparr>"

section \<open>Reference counting and the zero-count finalizer\<close>

text \<open>
  Modelled from the spec: \<^verbatim>\<open>AWS_CLEAN_THREADSAFE_FUNCTION(binding, f)\<close> is a macro of
  the repository's \<^verbatim>\<open>module.h\<close>, which is not among the sources. Section 3: each
  dispatcher handle is torn down exactly once, at the zero count. A handle that is
  set is released and the field cleared; a handle that is not set is left alone.
\<close>

definition clean_threadsafe_function ::
  "napi_threadsafe_function option \<Rightarrow> effect list" where
  "clean_threadsafe_function f =
     (case f of None \<Rightarrow> [] | Some t \<Rightarrow> [ReleaseThreadsafeFunction t])"

definition s_aws_event_stream_client_connection_binding_on_zero :: "world \<Rightarrow> world" where
  "s_aws_event_stream_client_connection_binding_on_zero w =
     (let w1 = emit [StringDestroy, TlsCleanUp] w;
          w2 = (emit (clean_threadsafe_function (on_connection_setup w1)) w1)
                 \<lparr>on_connection_setup := None\<rparr>;
          w3 = (emit (clean_threadsafe_function (on_connection_shutdown w2)) w2)
                 \<lparr>on_connection_shutdown := None\<rparr>;
          w4 = (emit (clean_threadsafe_function (on_protocol_message w3)) w3)
                 \<lparr>on_protocol_message := None\<rparr>
      in emit [MemReleaseBinding] w4)"

text \<open>
  Modelled from the spec: \<^verbatim>\<open>aws_ref_count_init\<close>, \<^verbatim>\<open>aws_ref_count_acquire\<close> and
  \<^verbatim>\<open>aws_ref_count_release\<close> belong to the common runtime library, not to this file.
  Section 4.1: a binding starts with the single construction reference; acquire
  increments the count; release decrements it and, when it reaches zero, triggers
  the finalizer registered at initialisation. The count is a natural number here;
  a release at zero has nothing to decrement and is a fault.
\<close>

definition aws_ref_count_init :: "world \<Rightarrow> world" where
  "aws_ref_count_init w = w\<lparr>ref_count := 1\<rparr>"

definition aws_ref_count_acquire :: "world \<Rightarrow> world" where
  "aws_ref_count_acquire w = (emit [AcquireBinding] w)\<lparr>ref_count := ref_count w + 1\<rparr>"

definition aws_ref_count_release :: "world \<Rightarrow> fault + world" where
  "aws_ref_count_release w =
     (if ref_count w = 0 then Inl RefCountUnderflow
      else let w1 = (emit [ReleaseBinding] w)\<lparr>ref_count := ref_count w - 1\<rparr>
           in if ref_count w1 = 0
              then Inr (s_aws_event_stream_client_connection_binding_on_zero w1)
              else Inr w1)"

text \<open>The binding pointer is never null in the model, so the wrappers only forward.\<close>

definition s_aws_event_stream_client_connection_binding_acquire :: "world \<Rightarrow> world" where
  "s_aws_event_stream_client_connection_binding_acquire w = aws_ref_count_acquire w"

definition s_aws_event_stream_client_connection_binding_release :: "world \<Rightarrow> fault + world" where
  "s_aws_event_stream_client_connection_binding_release w = aws_ref_count_release w"

section \<open>Closing the binding\<close>

definition delete_reference :: "napi_ref option \<Rightarrow> effect list" where
  "delete_reference r = (case r of None \<Rightarrow> [] | Some x \<Rightarrow> [DeleteReference x])"

definition s_close_binding :: "napi_env option \<Rightarrow> world \<Rightarrow> world" where
  "s_close_binding env w =
     (let external_ref = node_event_stream_client_connection_external_ref w;
          connection_ref = node_event_stream_client_connection_ref w;
          w1 = w\<lparr>is_closed := True,
                 node_event_stream_client_connection_external_ref := None,
                 node_event_stream_client_connection_ref := None\<rparr>
      in if env \<noteq> None
         then emit (delete_reference external_ref @ delete_reference connection_ref) w1
         else w1)"

text \<open>
  \<^verbatim>\<open>aws_napi_event_stream_client_connection_close\<close>: the host passes the argument
  list; \<^verbatim>\<open>napi_get_cb_info\<close> reports how many arguments were really passed.
\<close>

definition aws_napi_event_stream_client_connection_close ::
  "napi_env \<Rightarrow> napi_value list \<Rightarrow> world \<Rightarrow> call_result \<times> world" where
  "aws_napi_event_stream_client_connection_close env info w =
     (if \<not> get_cb_info_ok env
      then (Threw close_err_arguments, w)
      else case info of
        [node_binding] \<Rightarrow>
          (case node_binding of
             JsExternal p \<Rightarrow>
               (case p of
                  None \<Rightarrow>
                    (Threw close_err_null, w)
                | Some b \<Rightarrow> (Returned JsUndefined, s_close_binding (Some env) w))
           | _ \<Rightarrow>
               (Threw close_err_extract, w))
      | _ \<Rightarrow>
          (Threw close_err_count, w))"

section \<open>Abandonment: the finalizer of the external handle\<close>

definition bind_err :: "'e + 'a \<Rightarrow> ('a \<Rightarrow> 'e + 'b) \<Rightarrow> 'e + 'b" where
  "bind_err m f = (case m of Inl e \<Rightarrow> Inl e | Inr x \<Rightarrow> f x)"

definition s_aws_event_stream_client_connection_extern_finalize ::
  "napi_env option \<Rightarrow> world \<Rightarrow> fault + world" where
  "s_aws_event_stream_client_connection_extern_finalize env w =
     (case connection w of
        Some c \<Rightarrow> Inr ((emit [NativeRelease c] w)\<lparr>connection := None\<rparr>)
      | None \<Rightarrow>
          if \<not> is_closed w
          then s_aws_event_stream_client_connection_binding_release (s_close_binding env w)
          else Inr w)"

section \<open>Shutdown and setup deliveries in the host context\<close>

text \<open>
  \<^verbatim>\<open>napi_get_reference_value\<close> followed by the null test of the resolved value: true
  when the host object is still there. A null reference does not resolve.
\<close>

definition napi_get_reference_value :: "napi_env \<Rightarrow> napi_ref option \<Rightarrow> bool" where
  "napi_get_reference_value env r =
     (case r of None \<Rightarrow> False | Some x \<Rightarrow> get_reference_value_ok env x)"

text \<open>Releasing, and closing, the native connection a field points to; null: nothing.\<close>

definition native_release :: "nat option \<Rightarrow> effect list" where
  "native_release c = (case c of None \<Rightarrow> [] | Some x \<Rightarrow> [NativeRelease x])"

text \<open>The code of the shutdown delivery after its label \<^verbatim>\<open>done\<close>.\<close>

definition shutdown_done :: "napi_env option \<Rightarrow> world \<Rightarrow> fault + world" where
  "shutdown_done env w =
     (let w1 = s_close_binding env w;
          w2 = (emit (native_release (connection w1)) w1)\<lparr>connection := None\<rparr>
      in bind_err (s_aws_event_stream_client_connection_binding_release w2)
           (\<lambda>w3. Inr (emit [MemReleaseEventData] w3)))"

text \<open>
  \<^verbatim>\<open>AWS_NAPI_ENSURE\<close> aborts the process when the call it wraps fails;
  \<^verbatim>\<open>AWS_NAPI_CALL\<close> runs its recovery block instead. Handing the event to the host
  callback is one effect of the trace: what the host function does in its turn is
  not part of the delivery.
\<close>

text \<open>
  Both delivery functions take their event record from \<^verbatim>\<open>context\<close> and ignore
  \<^verbatim>\<open>user_data\<close>. The record's first use reads its binding pointer: through a null
  context that is a read at a null address; through the binding it takes a word of
  the binding (its reference count) for the binding pointer, and the access that
  follows lies outside every object. Both are faults.
\<close>

definition s_napi_event_stream_connection_on_connection_shutdown ::
  "napi_env option \<Rightarrow> context_ptr \<Rightarrow> context_ptr \<Rightarrow> world \<Rightarrow> fault + world" where
  "s_napi_event_stream_connection_on_connection_shutdown env context user_data w =
     (case context of
        ContextNull \<Rightarrow> Inl InvalidMemoryAccess
      | ContextBinding \<Rightarrow> Inl InvalidMemoryAccess
      | ContextEventData shutdown_data \<Rightarrow>
          if connection w = None then Inl (FatalAssert assert_connection_not_null)
          else case env of
            None \<Rightarrow> shutdown_done env w
          | Some e \<Rightarrow>
              if is_closed w then shutdown_done env w
              else if \<not> napi_get_reference_value e (node_event_stream_client_connection_ref w)
              then shutdown_done env w
              else if \<not> create_uint32_ok e then shutdown_done env w
              else if \<not> dispatch_threadsafe_function_ok e
              then Inl (FatalAssert ensure_dispatch_threadsafe_function)
              else shutdown_done env
                     (emit [HostShutdownCallback (ev_error_code shutdown_data)] w))"

text \<open>The protocol-message delivery has an empty body.\<close>

definition s_napi_event_stream_connection_on_protocol_message ::
  "napi_env option \<Rightarrow> context_ptr \<Rightarrow> nat \<Rightarrow> world \<Rightarrow> world" where
  "s_napi_event_stream_connection_on_protocol_message env context user_data w = w"

text \<open>The code of the setup delivery after its labels \<^verbatim>\<open>done\<close> and \<^verbatim>\<open>close\<close>.\<close>

definition setup_done :: "world \<Rightarrow> fault + world" where
  "setup_done w =
     bind_err
       (if connection w = None
        then s_aws_event_stream_client_connection_binding_release w
        else Inr w)
       (\<lambda>w1. Inr (emit [MemReleaseEventData] w1))"

definition native_close :: "nat option \<Rightarrow> effect list" where
  "native_close c =
     (case c of
        None \<Rightarrow> []
      | Some x \<Rightarrow> [NativeClose x AWS_CRT_NODEJS_ERROR_EVENT_STREAM_SETUP_ALREADY_CLOSED])"

definition setup_close :: "napi_env option \<Rightarrow> world \<Rightarrow> fault + world" where
  "setup_close env w =
     (let w1 = s_close_binding env w;
          w2 = emit (native_close (connection w1)) w1
      in setup_done w2)"

definition s_napi_on_event_stream_client_connection_setup ::
  "napi_env option \<Rightarrow> context_ptr \<Rightarrow> context_ptr \<Rightarrow> world \<Rightarrow> fault + world" where
  "s_napi_on_event_stream_client_connection_setup env context user_data w =
     (case context of
        ContextNull \<Rightarrow> Inl InvalidMemoryAccess
      | ContextBinding \<Rightarrow> Inl InvalidMemoryAccess
      | ContextEventData setup_data \<Rightarrow>
          let w0 = w\<lparr>connection := ev_connection setup_data\<rparr>
          in case env of
            None \<Rightarrow> setup_close env w0
          | Some e \<Rightarrow>
              if is_closed w0 then setup_close env w0
              else if \<not> napi_get_reference_value e (node_event_stream_client_connection_ref w0)
              then setup_close env w0
              else if \<not> create_uint32_ok e then setup_close env w0
              else if \<not> dispatch_threadsafe_function_ok e
              then Inl (FatalAssert ensure_dispatch_threadsafe_function)
              else setup_done (emit [HostSetupCallback (ev_error_code setup_data)] w0))"

section \<open>The native callbacks and the dispatcher queues\<close>

text \<open>
  The native callbacks run on a native thread: the setup and shutdown callbacks only
  package the event and queue it on the dispatcher
  (\<^verbatim>\<open>aws_napi_queue_threadsafe_function\<close> under \<^verbatim>\<open>AWS_NAPI_ENSURE\<close>; the flag says
  whether queueing succeeded). The protocol-message callback has an empty body: it
  queues nothing.
\<close>

definition s_aws_event_stream_rpc_client_on_connection_shutdown_fn ::
  "nat option \<Rightarrow> 32 word \<Rightarrow> bool \<Rightarrow> world \<Rightarrow> fault + world" where
  "s_aws_event_stream_rpc_client_on_connection_shutdown_fn conn error_code queued w =
     (if \<not> queued then Inl (FatalAssert ensure_queue_threadsafe_function)
      else Inr (w\<lparr>shutdown_queue := shutdown_queue w @
                  [\<lparr>ev_error_code = error_code, ev_connection = conn\<rparr>]\<rparr>))"

definition s_aws_event_stream_rpc_client_on_connection_setup_fn ::
  "nat option \<Rightarrow> 32 word \<Rightarrow> bool \<Rightarrow> world \<Rightarrow> fault + world" where
  "s_aws_event_stream_rpc_client_on_connection_setup_fn conn error_code queued w =
     (if \<not> queued then Inl (FatalAssert ensure_queue_threadsafe_function)
      else Inr (w\<lparr>setup_queue := setup_queue w @
                  [\<lparr>ev_error_code = error_code, ev_connection = conn\<rparr>]\<rparr>))"

definition s_aws_event_stream_rpc_client_connection_protocol_message_fn :: "world \<Rightarrow> world" where
  "s_aws_event_stream_rpc_client_connection_protocol_message_fn w = w"

text \<open>
  Modelled from the spec: the dispatcher itself is the host's thread-safe function
  machinery, not code of this file. Section 4.4: a FIFO, single-consumer queue; the
  host context invokes the registered target once per queued payload, in queue order.
  The target is handed two pointers: the context the thread-safe function was
  created with, and the payload that was queued. A dispatcher that was never
  created delivers nothing.
\<close>

definition deliver_setup :: "napi_env option \<Rightarrow> world \<Rightarrow> fault + world" where
  "deliver_setup env w =
     (case setup_queue w of
        [] \<Rightarrow> Inr w
      | d # ds \<Rightarrow>
          (case on_connection_setup w of
             None \<Rightarrow> Inr w
           | Some (Tsfn f name context) \<Rightarrow>
               s_napi_on_event_stream_client_connection_setup env context (ContextEventData d)
                 (w\<lparr>setup_queue := ds\<rparr>)))"

definition deliver_shutdown :: "napi_env option \<Rightarrow> world \<Rightarrow> fault + world" where
  "deliver_shutdown env w =
     (case shutdown_queue w of
        [] \<Rightarrow> Inr w
      | d # ds \<Rightarrow>
          (case on_connection_shutdown w of
             None \<Rightarrow> Inr w
           | Some (Tsfn f name context) \<Rightarrow>
               s_napi_event_stream_connection_on_connection_shutdown env context
                 (ContextEventData d) (w\<lparr>shutdown_queue := ds\<rparr>)))"

definition deliver_message :: "napi_env option \<Rightarrow> world \<Rightarrow> fault + world" where
  "deliver_message env w =
     (case message_queue w of
        [] \<Rightarrow> Inr w
      | m # ms \<Rightarrow>
          (case on_protocol_message w of
             None \<Rightarrow> Inr w
           | Some (Tsfn f name context) \<Rightarrow>
               Inr (s_napi_event_stream_connection_on_protocol_message env context m
                      (w\<lparr>message_queue := ms\<rparr>))))"

section \<open>Connect\<close>

text \<open>
  \<^verbatim>\<open>aws_napi_event_stream_client_connection_connect\<close>. The flag is the outcome of the
  synchronous \<^verbatim>\<open>aws_event_stream_rpc_client_connection_connect\<close> of the native library.
  The setup dispatcher is created with the binding as its context.
\<close>

definition aws_napi_event_stream_client_connection_connect ::
  "napi_env \<Rightarrow> napi_value list \<Rightarrow> bool \<Rightarrow> world \<Rightarrow> fault + call_result \<times> world" where
  "aws_napi_event_stream_client_connection_connect env info native_connect_ok w =
     (if \<not> get_cb_info_ok env
      then Inr (Threw connect_err_arguments, w)
      else case info of
        [node_binding, connection_setup_callback] \<Rightarrow>
          (case node_binding of
             JsExternal p \<Rightarrow>
               (case p of
                  None \<Rightarrow>
                    Inr (Threw connect_err_null, w)
                | Some b \<Rightarrow>
                    if is_closed w
                    then Inr (Threw connect_err_closed, w)
                    else if connection w \<noteq> None
                    then Inl (FatalAssert assert_connection_null)
                    else if \<not> create_threadsafe_function_ok env connection_setup_callback
                    then Inr (Threw connect_err_threadsafe_function, w)
                    else
                      let w1 = w\<lparr>on_connection_setup :=
                                   Some (Tsfn connection_setup_callback
                                     name_on_connection_setup ContextBinding)\<rparr>;
                          w2 = s_aws_event_stream_client_connection_binding_acquire w1;
                          w3 = emit [NativeConnect native_connect_ok] w2
                      in if \<not> native_connect_ok
                         then bind_err (s_aws_event_stream_client_connection_binding_release w3)
                                (\<lambda>w4. Inr (Threw connect_err_synchronous, w4))
                         else Inr (Returned JsUndefined, w3))
           | _ \<Rightarrow>
               Inr (Threw connect_err_extract, w))
      | _ \<Rightarrow>
          Inr (Threw connect_err_count, w))"

text \<open>
  The earlier revision of connect kept in the same source file (after the separator):
  it has no closed test that throws, and asserts both preconditions.
\<close>

definition aws_napi_event_stream_client_connection_connect_earlier ::
  "napi_env \<Rightarrow> napi_value list \<Rightarrow> bool \<Rightarrow> world \<Rightarrow> fault + call_result \<times> world" where
  "aws_napi_event_stream_client_connection_connect_earlier env info native_connect_ok w =
     (if \<not> get_cb_info_ok env
      then Inr (Threw connect_err_arguments, w)
      else case info of
        [node_binding, connection_setup_callback] \<Rightarrow>
          (case node_binding of
             JsExternal p \<Rightarrow>
               (case p of
                  None \<Rightarrow>
                    Inr (Threw connect_err_null, w)
                | Some b \<Rightarrow>
                    if connection w \<noteq> None
                    then Inl (FatalAssert assert_connection_null)
                    else if is_closed w
                    then Inl (FatalAssert assert_not_closed)
                    else if \<not> create_threadsafe_function_ok env connection_setup_callback
                    then Inr (Threw connect_err_threadsafe_function, w)
                    else
                      let w1 = w\<lparr>on_connection_setup :=
                                   Some (Tsfn connection_setup_callback
                                     name_on_connection_setup ContextBinding)\<rparr>;
                          w2 = s_aws_event_stream_client_connection_binding_acquire w1;
                          w3 = emit [NativeConnect native_connect_ok] w2
                      in if \<not> native_connect_ok
                         then bind_err (s_aws_event_stream_client_connection_binding_release w3)
                                (\<lambda>w4. Inr (Threw connect_err_synchronous, w4))
                         else Inr (Returned JsUndefined, w3))
           | _ \<Rightarrow>
               Inr (Threw connect_err_extract, w))
      | _ \<Rightarrow>
          Inr (Threw connect_err_count, w))"

section \<open>Creating the binding\<close>

text \<open>
  Modelled from the spec: \<^verbatim>\<open>aws_napi_is_null_or_undefined\<close>,
  \<^verbatim>\<open>aws_napi_get_named_property\<close> and \<^verbatim>\<open>aws_napi_get_named_property_as_uint16\<close> are
  helpers of the repository's \<^verbatim>\<open>module.c\<close>, which is not among the sources. Section 6:
  create validates that the host name is present and that the port is a valid 16-bit
  value; section 8, Scenario B: a configuration with port 0 or without a host name is
  an argument error. A property is valid when it is there, is not null or undefined,
  and has the requested type; a port is valid when it is a number from 1 to 65535.
\<close>

definition aws_napi_is_null_or_undefined :: "napi_value \<Rightarrow> bool" where
  "aws_napi_is_null_or_undefined v = (v = JsUndefined \<or> v = JsNull)"

datatype aws_napi_get_named_property_result =
  AWS_NGNPR_VALID_VALUE | AWS_NGNPR_INVALID_VALUE | AWS_NGNPR_NO_VALUE

datatype napi_valuetype = napi_string | napi_number

fun has_valuetype :: "napi_value \<Rightarrow> napi_valuetype \<Rightarrow> bool" where
  "has_valuetype (JsString s) napi_string = True"
| "has_valuetype (JsNumber n) napi_number = True"
| "has_valuetype v t = False"

definition aws_napi_get_named_property ::
  "napi_value \<Rightarrow> string \<Rightarrow> napi_valuetype \<Rightarrow>
     aws_napi_get_named_property_result \<times> napi_value" where
  "aws_napi_get_named_property object name t =
     (case object of
        JsObject props \<Rightarrow>
          (case map_of props name of
             None \<Rightarrow> (AWS_NGNPR_NO_VALUE, JsUndefined)
           | Some v \<Rightarrow>
               if aws_napi_is_null_or_undefined v then (AWS_NGNPR_NO_VALUE, JsUndefined)
               else if has_valuetype v t then (AWS_NGNPR_VALID_VALUE, v)
               else (AWS_NGNPR_INVALID_VALUE, JsUndefined))
      | _ \<Rightarrow> (AWS_NGNPR_NO_VALUE, JsUndefined))"

text \<open>The second component is the value written through the result pointer, if any.\<close>

definition aws_napi_get_named_property_as_uint16 ::
  "napi_value \<Rightarrow> string \<Rightarrow> aws_napi_get_named_property_result \<times> 16 word option" where
  "aws_napi_get_named_property_as_uint16 object name =
     (case aws_napi_get_named_property object name napi_number of
        (AWS_NGNPR_VALID_VALUE, v) \<Rightarrow>
          (case v of
             JsNumber n \<Rightarrow>
               if 0 < n \<and> n \<le> 65535 then (AWS_NGNPR_VALID_VALUE, Some (word_of_int n))
               else (AWS_NGNPR_INVALID_VALUE, None)
           | _ \<Rightarrow> (AWS_NGNPR_INVALID_VALUE, None))
      | (r, v) \<Rightarrow> (r, None))"

text \<open>\<^verbatim>\<open>aws_string_new_from_napi\<close>: a copy of the host string, or null when the host refuses.\<close>

definition aws_string_new_from_napi :: "napi_env \<Rightarrow> napi_value \<Rightarrow> string option" where
  "aws_string_new_from_napi env v =
     (case v of
        JsString s \<Rightarrow> if string_new_from_napi_ok env then Some s else None
      | _ \<Rightarrow> None)"

datatype aws_error = AWS_ERROR_INVALID_ARGUMENT

text \<open>
  The result is the raised error (\<open>None\<close>: \<^verbatim>\<open>AWS_OP_SUCCESS\<close>) and the binding as the
  function left it: the host name is stored before the port is looked at.
\<close>

definition s_init_event_stream_connection_configuration_from_js_connection_configuration ::
  "napi_env \<Rightarrow> napi_value \<Rightarrow> world \<Rightarrow> aws_error option \<times> world" where
  "s_init_event_stream_connection_configuration_from_js_connection_configuration
       env node_connection_options w =
     (case aws_napi_get_named_property node_connection_options AWS_EVENT_STREAM_PROPERTY_NAME_HOST napi_string of
        (AWS_NGNPR_VALID_VALUE, host_name_property) \<Rightarrow>
          (let w1 = w\<lparr>host := aws_string_new_from_napi env host_name_property\<rparr>
           in if host w1 = None then (Some AWS_ERROR_INVALID_ARGUMENT, w1)
              else case aws_napi_get_named_property_as_uint16 node_connection_options AWS_EVENT_STREAM_PROPERTY_NAME_PORT of
                (AWS_NGNPR_VALID_VALUE, p) \<Rightarrow>
                  (None, (case p of None \<Rightarrow> w1 | Some x \<Rightarrow> w1\<lparr>port := x\<rparr>))
              | (r, p) \<Rightarrow> (Some AWS_ERROR_INVALID_ARGUMENT, w1))
      | (r, v) \<Rightarrow> (Some AWS_ERROR_INVALID_ARGUMENT, w))"

text \<open>\<^verbatim>\<open>aws_mem_calloc\<close>: every field zero, at a fixed non-null address.\<close>

definition binding_ptr :: pointer where
  "binding_ptr = 1"

definition calloc_binding :: world where
  "calloc_binding =
     \<lparr>ref_count = 0, connection = None, is_closed = False, host = None, port = 0,
      socket_options = None, tls_connection_options = None, using_tls = False,
      node_event_stream_client_connection_ref = None,
      node_event_stream_client_connection_external_ref = None,
      on_connection_setup = None, on_connection_shutdown = None,
      on_protocol_message = None,
      trace = [], setup_queue = [], shutdown_queue = [], message_queue = []\<rparr>"

text \<open>
  The six arguments of \<^verbatim>\<open>aws_napi_event_stream_client_connection_new\<close> are handled in
  turn; each stage either throws (\<open>Inl\<close>: the message, and the binding as it is left
  behind for the finalizer) or passes the binding on. The shutdown and message
  dispatchers are created with a null context.
\<close>

definition new_connection_arg ::
  "napi_env \<Rightarrow> napi_value \<Rightarrow> world \<Rightarrow> string \<times> world + world" where
  "new_connection_arg env node_connection w =
     (if aws_napi_is_null_or_undefined node_connection
      then Inl (new_err_connection_null, w)
      else if \<not> create_reference_ok env node_connection
      then Inl (new_err_connection_ref, w)
      else Inr (w\<lparr>node_event_stream_client_connection_ref := Some (Ref node_connection)\<rparr>))"

definition new_options_arg ::
  "napi_env \<Rightarrow> napi_value \<Rightarrow> world \<Rightarrow> string \<times> world + world" where
  "new_options_arg env node_connection_options w =
     (if aws_napi_is_null_or_undefined node_connection_options
      then Inl (new_err_options_null, w)
      else case s_init_event_stream_connection_configuration_from_js_connection_configuration
                  env node_connection_options w of
        (Some e, w1) \<Rightarrow>
          Inl (new_err_configuration, w1)
      | (None, w1) \<Rightarrow> Inr w1)"

definition new_shutdown_handler_arg ::
  "napi_env \<Rightarrow> napi_value \<Rightarrow> world \<Rightarrow> string \<times> world + world" where
  "new_shutdown_handler_arg env on_connection_shutdown_event_handler w =
     (if aws_napi_is_null_or_undefined on_connection_shutdown_event_handler
      then Inl (new_err_shutdown_null, w)
      else if \<not> create_threadsafe_function_ok env on_connection_shutdown_event_handler
      then Inl (new_err_shutdown_threadsafe_function, w)
      else Inr (w\<lparr>on_connection_shutdown :=
                   Some (Tsfn on_connection_shutdown_event_handler
                     name_on_connection_shutdown ContextNull)\<rparr>))"

definition new_message_handler_arg ::
  "napi_env \<Rightarrow> napi_value \<Rightarrow> world \<Rightarrow> string \<times> world + world" where
  "new_message_handler_arg env on_protocol_message_event_handler w =
     (if aws_napi_is_null_or_undefined on_protocol_message_event_handler
      then Inl (new_err_message_null, w)
      else if \<not> create_threadsafe_function_ok env on_protocol_message_event_handler
      then Inl (new_err_message_threadsafe_function, w)
      else Inr (w\<lparr>on_protocol_message :=
                   Some (Tsfn on_protocol_message_event_handler
                     name_on_protocol_message ContextNull)\<rparr>))"

definition new_socket_options_arg :: "napi_value \<Rightarrow> world \<Rightarrow> string \<times> world + world" where
  "new_socket_options_arg node_socket_options w =
     (if \<not> aws_napi_is_null_or_undefined node_socket_options
      then case node_socket_options of
        JsExternal socket_options_ptr \<Rightarrow>
          (case socket_options_ptr of
             None \<Rightarrow> Inl (new_err_socket_null, w)
           | Some q \<Rightarrow> Inr (w\<lparr>socket_options := Some q\<rparr>))
      | _ \<Rightarrow>
          Inl (new_err_socket_extract, w)
      else Inr w)"

definition new_tls_arg :: "napi_value \<Rightarrow> world \<Rightarrow> string \<times> world + world" where
  "new_tls_arg node_tls w =
     (if \<not> aws_napi_is_null_or_undefined node_tls
      then case node_tls of
        JsExternal tls_ctx \<Rightarrow> Inr (w\<lparr>tls_connection_options := tls_ctx, using_tls := True\<rparr>)
      | _ \<Rightarrow>
          Inl (new_err_tls_extract, w)
      else Inr w)"

definition new_external_ref :: "napi_env \<Rightarrow> napi_value \<Rightarrow> world \<Rightarrow> string \<times> world + world" where
  "new_external_ref env node_external w =
     (if \<not> create_reference_ok env node_external
      then Inl (new_err_external_ref, w)
      else Inr (w\<lparr>node_event_stream_client_connection_external_ref := Some (Ref node_external)\<rparr>))"

text \<open>
  The result carries the world only when a binding was allocated. When the external
  cannot be created the binding is freed on the spot; after that, every failure
  leaves the binding to the external's finalizer.
\<close>

definition aws_napi_event_stream_client_connection_new ::
  "napi_env \<Rightarrow> napi_value list \<Rightarrow> call_result \<times> world option" where
  "aws_napi_event_stream_client_connection_new env info =
     (if \<not> get_cb_info_ok env
      then (Threw new_err_arguments, None)
      else case info of
        [node_connection, node_connection_options, on_connection_shutdown_event_handler,
         on_protocol_message_event_handler, node_socket_options, node_tls] \<Rightarrow>
          (let w = aws_ref_count_init calloc_binding;
               node_external = JsExternal (Some binding_ptr)
           in if \<not> create_external_ok env
              then (Threw new_err_external,
                    Some (emit [MemReleaseBinding] w))
              else case
                bind_err (new_connection_arg env node_connection w) (\<lambda>w1.
                bind_err (new_options_arg env node_connection_options w1) (\<lambda>w2.
                bind_err (new_shutdown_handler_arg env on_connection_shutdown_event_handler w2) (\<lambda>w3.
                bind_err (new_message_handler_arg env on_protocol_message_event_handler w3) (\<lambda>w4.
                bind_err (new_socket_options_arg node_socket_options w4) (\<lambda>w5.
                bind_err (new_tls_arg node_tls w5) (\<lambda>w6.
                new_external_ref env node_external w6))))))
              of
                Inl (msg, w') \<Rightarrow> (Threw msg, Some w')
              | Inr w' \<Rightarrow> (Returned node_external, Some w'))
      | _ \<Rightarrow>
          (Threw new_err_count, None))"

section \<open>Operations on a binding, as the host and the native library issue them\<close>

text \<open>
  The deliveries are those of the dispatchers. The last two operations are not
  events of the program: they apply a delivery function to a context and a payload
  of one's choice, to say what the function does with each.
\<close>

datatype operation =
    Close napi_env "napi_value list"
  | Connect napi_env "napi_value list" bool
  | ExternFinalize "napi_env option"
  | NativeSetupEvent "nat option" "32 word" bool
  | NativeShutdownEvent "nat option" "32 word" bool
  | NativeProtocolMessage
  | SetupDelivery "napi_env option"
  | ShutdownDelivery "napi_env option"
  | ProtocolMessageDelivery "napi_env option"
  | Acquire
  | Release
  | SetupCall "napi_env option" context_ptr context_ptr
  | ShutdownCall "napi_env option" context_ptr context_ptr

fun run_operation :: "operation \<Rightarrow> world \<Rightarrow> fault + world" where
  "run_operation (Close env info) w =
     Inr (snd (aws_napi_event_stream_client_connection_close env info w))"
| "run_operation (Connect env info ok) w =
     bind_err (aws_napi_event_stream_client_connection_connect env info ok w)
       (\<lambda>r. Inr (snd r))"
| "run_operation (ExternFinalize env) w =
     s_aws_event_stream_client_connection_extern_finalize env w"
| "run_operation (NativeSetupEvent c e q) w =
     s_aws_event_stream_rpc_client_on_connection_setup_fn c e q w"
| "run_operation (NativeShutdownEvent c e q) w =
     s_aws_event_stream_rpc_client_on_connection_shutdown_fn c e q w"
| "run_operation NativeProtocolMessage w =
     Inr (s_aws_event_stream_rpc_client_connection_protocol_message_fn w)"
| "run_operation (SetupDelivery env) w = deliver_setup env w"
| "run_operation (ShutdownDelivery env) w = deliver_shutdown env w"
| "run_operation (ProtocolMessageDelivery env) w = deliver_message env w"
| "run_operation Acquire w =
     Inr (s_aws_event_stream_client_connection_binding_acquire w)"
| "run_operation Release w =
     s_aws_event_stream_client_connection_binding_release w"
| "run_operation (SetupCall env context user_data) w =
     s_napi_on_event_stream_client_connection_setup env context user_data w"
| "run_operation (ShutdownCall env context user_data) w =
     s_napi_event_stream_connection_on_connection_shutdown env context user_data w"

fun run_operations :: "operation list \<Rightarrow> world \<Rightarrow> fault + world" where
  "run_operations [] w = Inr w"
| "run_operations (x # xs) w = bind_err (run_operation x w) (run_operations xs)"

section \<open>Measures on traces, and example values\<close>

text \<open>The finalizer frees the binding as its last step, once per run.\<close>

definition finalizer_runs :: "world \<Rightarrow> nat" where
  "finalizer_runs w = count_list (trace w) MemReleaseBinding"

text \<open>
  A sequence of acquire and release calls is balanced from a count \<open>c\<close> when every
  call is made while the count is positive (by a holder of a reference) and the
  count is zero after the last call.
\<close>

fun balanced :: "nat \<Rightarrow> operation list \<Rightarrow> bool" where
  "balanced c [] = (c = 0)"
| "balanced c (Acquire # xs) = (0 < c \<and> balanced (c + 1) xs)"
| "balanced c (Release # xs) = (0 < c \<and> balanced (c - 1) xs)"
| "balanced c (x # xs) = False"

text \<open>The parts of a trace the claims speak about.\<close>

fun is_host_callback :: "effect \<Rightarrow> bool" where
  "is_host_callback (HostSetupCallback c) = True"
| "is_host_callback (HostShutdownCallback c) = True"
| "is_host_callback x = False"

fun is_native_call :: "effect \<Rightarrow> bool" where
  "is_native_call (NativeConnect ok) = True"
| "is_native_call (NativeClose c r) = True"
| "is_native_call (NativeRelease c) = True"
| "is_native_call x = False"

fun is_ref_op :: "effect \<Rightarrow> bool" where
  "is_ref_op AcquireBinding = True"
| "is_ref_op ReleaseBinding = True"
| "is_ref_op x = False"

definition host_callbacks :: "world \<Rightarrow> effect list" where
  "host_callbacks w = filter is_host_callback (trace w)"

definition native_calls :: "world \<Rightarrow> effect list" where
  "native_calls w = filter is_native_call (trace w)"

definition ref_ops :: "world \<Rightarrow> effect list" where
  "ref_ops w = filter is_ref_op (trace w)"

text \<open>
  Whether the host proxy can be resolved in a delivery: there is a host context and
  the reference to the host object still yields it.
\<close>

definition host_proxy_resolves :: "napi_env option \<Rightarrow> world \<Rightarrow> bool" where
  "host_proxy_resolves env w =
     (case env of
        None \<Rightarrow> False
      | Some e \<Rightarrow> napi_get_reference_value e (node_event_stream_client_connection_ref w))"

text \<open>
  Whether a delivery reaches the host callback: the binding is not closed, the host
  proxy resolves and the error code can be turned into a host number.
\<close>

definition notifies :: "napi_env option \<Rightarrow> world \<Rightarrow> bool" where
  "notifies env w =
     (\<not> is_closed w \<and>
      (case env of
         None \<Rightarrow> False
       | Some e \<Rightarrow>
           napi_get_reference_value e (node_event_stream_client_connection_ref w) \<and>
           create_uint32_ok e))"

text \<open>Whether handing the event to the host callback can abort the process.\<close>

definition dispatch_succeeds :: "napi_env option \<Rightarrow> bool" where
  "dispatch_succeeds env =
     (case env of None \<Rightarrow> True | Some e \<Rightarrow> dispatch_threadsafe_function_ok e)"







text \<open>
  The configuration checks of create, in the words of the interface: the host name
  is present, the port is a valid 16-bit value and, as Scenario B has it, not 0.
\<close>

definition host_name_present :: "napi_value \<Rightarrow> bool" where
  "host_name_present cfg =
     (case cfg of
        JsObject props \<Rightarrow>
          (case map_of props ''hostName'' of Some (JsString s) \<Rightarrow> True | _ \<Rightarrow> False)
      | _ \<Rightarrow> False)"

definition port_valid :: "napi_value \<Rightarrow> bool" where
  "port_valid cfg =
     (case cfg of
        JsObject props \<Rightarrow>
          (case map_of props ''port'' of
             Some (JsNumber n) \<Rightarrow> 0 < n \<and> n \<le> 65535
           | _ \<Rightarrow> False)
      | _ \<Rightarrow> False)"

text \<open>A host context in which every call succeeds and every reference resolves.\<close>

definition host_env :: napi_env where
  "host_env =
     \<lparr>get_cb_info_ok = True, create_external_ok = True,
      create_reference_ok = (\<lambda>v. True),
      create_threadsafe_function_ok = (\<lambda>v. True),
      string_new_from_napi_ok = True,
      get_reference_value_ok = (\<lambda>r. True),
      create_uint32_ok = True, dispatch_threadsafe_function_ok = True\<rparr>"

text \<open>A binding as creation leaves it: one reference, both host references held.\<close>

definition fresh_binding :: world where
  "fresh_binding =
     (aws_ref_count_init calloc_binding)
       \<lparr>host := Some ''localhost'', port := 8033,
        node_event_stream_client_connection_ref := Some (Ref (JsObject [])),
        node_event_stream_client_connection_external_ref :=
          Some (Ref (JsExternal (Some binding_ptr))),
        on_connection_shutdown :=
          Some (Tsfn (JsFunction 1) name_on_connection_shutdown ContextNull),
        on_protocol_message :=
          Some (Tsfn (JsFunction 2) name_on_protocol_message ContextNull)\<rparr>"

text \<open>The binding is alive until its memory is released.\<close>

definition binding_alive :: "world \<Rightarrow> bool" where
  "binding_alive w = (finalizer_runs w = 0)"

text \<open>
  A binding that has only been created: one reference, no connection, not closed,
  no effect yet.
\<close>

definition pristine :: "world \<Rightarrow> bool" where
  "pristine w = (ref_count w = 1 \<and> connection w = None \<and> \<not> is_closed w \<and> trace w = [])"

text \<open>
  The fresh binding after an explicit close, and a binding as the setup delivery
  function leaves it when it is handed a payload with connection 7.
\<close>

definition closed_binding :: world where
  "closed_binding = s_close_binding (Some host_env) fresh_binding"

definition connected_binding :: world where
  "connected_binding =
     fresh_binding
       \<lparr>ref_count := 2, connection := Some 7,
        on_connection_setup :=
          Some (Tsfn (JsFunction 3) name_on_connection_setup ContextBinding),
        trace := [AcquireBinding, NativeConnect True, HostSetupCallback 0, MemReleaseEventData]\<rparr>"

section \<open>Basic facts\<close>

lemma bind_err_simps [simp]:
  "bind_err (Inl e) f = Inl e"
  "bind_err (Inr x) f = f x"
  by (simp_all add: bind_err_def)

lemma emit_Nil [simp]: "emit [] w = w"
  by (simp add: emit_def)

lemma on_zero_fields [simp]:
  "ref_count (s_aws_event_stream_client_connection_binding_on_zero w) = ref_count w"
  "connection (s_aws_event_stream_client_connection_binding_on_zero w) = connection w"
  "is_closed (s_aws_event_stream_client_connection_binding_on_zero w) = is_closed w"
  "setup_queue (s_aws_event_stream_client_connection_binding_on_zero w) = setup_queue w"
  "shutdown_queue (s_aws_event_stream_client_connection_binding_on_zero w) = shutdown_queue w"
  "message_queue (s_aws_event_stream_client_connection_binding_on_zero w) = message_queue w"
  by (simp_all add: s_aws_event_stream_client_connection_binding_on_zero_def emit_def Let_def)

lemma on_zero_finalizer_runs [simp]:
  "finalizer_runs (s_aws_event_stream_client_connection_binding_on_zero w) =
     Suc (finalizer_runs w)"
  by (simp add: s_aws_event_stream_client_connection_binding_on_zero_def emit_def Let_def
      finalizer_runs_def clean_threadsafe_function_def split: option.splits)

lemma acquire_facts [simp]:
  "ref_count (s_aws_event_stream_client_connection_binding_acquire w) = Suc (ref_count w)"
  "finalizer_runs (s_aws_event_stream_client_connection_binding_acquire w) = finalizer_runs w"
  by (simp_all add: s_aws_event_stream_client_connection_binding_acquire_def
      aws_ref_count_acquire_def emit_def finalizer_runs_def)

lemma finalizer_runs_emit_release [simp]:
  "finalizer_runs ((emit [ReleaseBinding] w)\<lparr>ref_count := c\<rparr>) = finalizer_runs w"
  by (simp add: finalizer_runs_def emit_def)

lemma release_Inr:
  assumes "0 < ref_count w"
  shows "\<exists>w'. s_aws_event_stream_client_connection_binding_release w = Inr w' \<and>
           ref_count w' = ref_count w - 1 \<and>
           finalizer_runs w' = finalizer_runs w + (if ref_count w = 1 then 1 else 0)"
  using assms
  by (simp add: s_aws_event_stream_client_connection_binding_release_def
      aws_ref_count_release_def Let_def)

section \<open>What each delivery does to the binding and to the trace\<close>

lemma proj_emit [simp]:
  "host_callbacks (emit es w) = host_callbacks w @ filter is_host_callback es"
  "native_calls (emit es w) = native_calls w @ filter is_native_call es"
  "ref_ops (emit es w) = ref_ops w @ filter is_ref_op es"
  "finalizer_runs (emit es w) = finalizer_runs w + count_list es MemReleaseBinding"
  by (simp_all add: host_callbacks_def native_calls_def ref_ops_def finalizer_runs_def emit_def)

lemma emit_fields [simp]:
  "ref_count (emit es w) = ref_count w"
  "connection (emit es w) = connection w"
  "is_closed (emit es w) = is_closed w"
  "setup_queue (emit es w) = setup_queue w"
  "shutdown_queue (emit es w) = shutdown_queue w"
  "message_queue (emit es w) = message_queue w"
  "node_event_stream_client_connection_ref (emit es w) = node_event_stream_client_connection_ref w"
  by (simp_all add: emit_def)

lemma proj_update [simp]:
  "host_callbacks (w\<lparr>ref_count := c\<rparr>) = host_callbacks w"
  "native_calls (w\<lparr>ref_count := c\<rparr>) = native_calls w"
  "ref_ops (w\<lparr>ref_count := c\<rparr>) = ref_ops w"
  "finalizer_runs (w\<lparr>ref_count := c\<rparr>) = finalizer_runs w"
  "host_callbacks (w\<lparr>connection := x\<rparr>) = host_callbacks w"
  "native_calls (w\<lparr>connection := x\<rparr>) = native_calls w"
  "ref_ops (w\<lparr>connection := x\<rparr>) = ref_ops w"
  "finalizer_runs (w\<lparr>connection := x\<rparr>) = finalizer_runs w"
  "host_callbacks (w\<lparr>setup_queue := q\<rparr>) = host_callbacks w"
  "native_calls (w\<lparr>setup_queue := q\<rparr>) = native_calls w"
  "ref_ops (w\<lparr>setup_queue := q\<rparr>) = ref_ops w"
  "finalizer_runs (w\<lparr>setup_queue := q\<rparr>) = finalizer_runs w"
  "host_callbacks (w\<lparr>shutdown_queue := q\<rparr>) = host_callbacks w"
  "native_calls (w\<lparr>shutdown_queue := q\<rparr>) = native_calls w"
  "ref_ops (w\<lparr>shutdown_queue := q\<rparr>) = ref_ops w"
  "finalizer_runs (w\<lparr>shutdown_queue := q\<rparr>) = finalizer_runs w"
  "host_callbacks (w\<lparr>message_queue := m\<rparr>) = host_callbacks w"
  "native_calls (w\<lparr>message_queue := m\<rparr>) = native_calls w"
  "ref_ops (w\<lparr>message_queue := m\<rparr>) = ref_ops w"
  "finalizer_runs (w\<lparr>message_queue := m\<rparr>) = finalizer_runs w"
  "host_callbacks (w\<lparr>on_connection_setup := t\<rparr>) = host_callbacks w"
  "native_calls (w\<lparr>on_connection_setup := t\<rparr>) = native_calls w"
  "ref_ops (w\<lparr>on_connection_setup := t\<rparr>) = ref_ops w"
  "finalizer_runs (w\<lparr>on_connection_setup := t\<rparr>) = finalizer_runs w"
  by (simp_all add: host_callbacks_def native_calls_def ref_ops_def finalizer_runs_def)

lemma on_zero_proj [simp]:
  "host_callbacks (s_aws_event_stream_client_connection_binding_on_zero w) = host_callbacks w"
  "native_calls (s_aws_event_stream_client_connection_binding_on_zero w) = native_calls w"
  "ref_ops (s_aws_event_stream_client_connection_binding_on_zero w) = ref_ops w"
  by (simp_all add: s_aws_event_stream_client_connection_binding_on_zero_def emit_def Let_def
      host_callbacks_def native_calls_def ref_ops_def clean_threadsafe_function_def
      split: option.splits)

lemma on_zero_ref [simp]:
  "node_event_stream_client_connection_ref (s_aws_event_stream_client_connection_binding_on_zero w) =
     node_event_stream_client_connection_ref w"
  by (simp add: s_aws_event_stream_client_connection_binding_on_zero_def emit_def Let_def)

lemma acquire_proj [simp]:
  "host_callbacks (s_aws_event_stream_client_connection_binding_acquire w) = host_callbacks w"
  "native_calls (s_aws_event_stream_client_connection_binding_acquire w) = native_calls w"
  "ref_ops (s_aws_event_stream_client_connection_binding_acquire w) = ref_ops w @ [AcquireBinding]"
  "connection (s_aws_event_stream_client_connection_binding_acquire w) = connection w"
  "is_closed (s_aws_event_stream_client_connection_binding_acquire w) = is_closed w"
  "setup_queue (s_aws_event_stream_client_connection_binding_acquire w) = setup_queue w"
  "shutdown_queue (s_aws_event_stream_client_connection_binding_acquire w) = shutdown_queue w"
  "message_queue (s_aws_event_stream_client_connection_binding_acquire w) = message_queue w"
  by (simp_all add: s_aws_event_stream_client_connection_binding_acquire_def
      aws_ref_count_acquire_def)

lemma release_cases:
  "s_aws_event_stream_client_connection_binding_release w = Inr w' \<Longrightarrow>
     0 < ref_count w \<and> ref_count w' = ref_count w - 1 \<and>
     connection w' = connection w \<and> is_closed w' = is_closed w \<and>
     setup_queue w' = setup_queue w \<and> shutdown_queue w' = shutdown_queue w \<and>
     message_queue w' = message_queue w \<and>
     host_callbacks w' = host_callbacks w \<and> native_calls w' = native_calls w \<and>
     ref_ops w' = ref_ops w @ [ReleaseBinding] \<and>
     finalizer_runs w' = finalizer_runs w + (if ref_count w = 1 then 1 else 0)"
  by (auto simp add: s_aws_event_stream_client_connection_binding_release_def
      aws_ref_count_release_def Let_def split: if_splits)

lemma release_total:
  "0 < ref_count w \<Longrightarrow> \<exists>w'. s_aws_event_stream_client_connection_binding_release w = Inr w'"
  by (simp add: s_aws_event_stream_client_connection_binding_release_def
      aws_ref_count_release_def Let_def)

lemma close_binding_facts [simp]:
  "ref_count (s_close_binding env w) = ref_count w"
  "connection (s_close_binding env w) = connection w"
  "is_closed (s_close_binding env w) = True"
  "setup_queue (s_close_binding env w) = setup_queue w"
  "shutdown_queue (s_close_binding env w) = shutdown_queue w"
  "message_queue (s_close_binding env w) = message_queue w"
  "host_callbacks (s_close_binding env w) = host_callbacks w"
  "native_calls (s_close_binding env w) = native_calls w"
  "ref_ops (s_close_binding env w) = ref_ops w"
  "finalizer_runs (s_close_binding env w) = finalizer_runs w"
  by (simp_all add: s_close_binding_def emit_def Let_def delete_reference_def
      host_callbacks_def native_calls_def ref_ops_def finalizer_runs_def split: option.splits)


lemma shutdown_done_cases:
  "shutdown_done env w = Inr w' \<Longrightarrow>
     0 < ref_count w \<and> ref_count w' = ref_count w - 1 \<and>
     connection w' = None \<and> is_closed w' \<and>
     setup_queue w' = setup_queue w \<and> shutdown_queue w' = shutdown_queue w \<and>
     message_queue w' = message_queue w \<and>
     host_callbacks w' = host_callbacks w \<and>
     native_calls w' = native_calls w @ native_release (connection w) \<and>
     ref_ops w' = ref_ops w @ [ReleaseBinding] \<and>
     finalizer_runs w' = finalizer_runs w + (if ref_count w = 1 then 1 else 0)"
proof -
  assume a: "shutdown_done env w = Inr w'"
  let ?w2 = "(emit (native_release (connection (s_close_binding env w))) (s_close_binding env w))
               \<lparr>connection := None\<rparr>"
  from a obtain w3 where r: "s_aws_event_stream_client_connection_binding_release ?w2 = Inr w3"
    and e: "w' = emit [MemReleaseEventData] w3"
    by (auto simp add: shutdown_done_def Let_def bind_err_def split: sum.splits)
  have n: "filter is_native_call (native_release c) = native_release c" for c
    by (simp add: native_release_def split: option.splits)
  have m: "count_list (native_release c) MemReleaseBinding = 0" for c
    by (simp add: native_release_def split: option.splits)
  have h: "filter is_host_callback (native_release c) = []" for c
    by (simp add: native_release_def split: option.splits)
  have o: "filter is_ref_op (native_release c) = []" for c
    by (simp add: native_release_def split: option.splits)
  from release_cases [OF r] e show ?thesis
    by (simp add: n m h o)
qed

lemma shutdown_done_total:
  "0 < ref_count w \<Longrightarrow> \<exists>w'. shutdown_done env w = Inr w'"
proof -
  assume p: "0 < ref_count w"
  let ?w2 = "(emit (native_release (connection (s_close_binding env w))) (s_close_binding env w))
               \<lparr>connection := None\<rparr>"
  from p have "0 < ref_count ?w2" by simp
  from release_total [OF this] show ?thesis
    by (auto simp add: shutdown_done_def Let_def)
qed

lemma setup_done_cases:
  "setup_done w = Inr w' \<Longrightarrow>
     (connection w = None \<longrightarrow> 0 < ref_count w) \<and>
     ref_count w' = (if connection w = None then ref_count w - 1 else ref_count w) \<and>
     connection w' = connection w \<and> is_closed w' = is_closed w \<and>
     setup_queue w' = setup_queue w \<and> shutdown_queue w' = shutdown_queue w \<and>
     message_queue w' = message_queue w \<and>
     host_callbacks w' = host_callbacks w \<and>
     native_calls w' = native_calls w \<and>
     ref_ops w' = ref_ops w @ (if connection w = None then [ReleaseBinding] else []) \<and>
     finalizer_runs w' =
       finalizer_runs w + (if connection w = None \<and> ref_count w = 1 then 1 else 0)"
proof (cases "connection w")
  case None
  assume a: "setup_done w = Inr w'"
  with None obtain w1 where r: "s_aws_event_stream_client_connection_binding_release w = Inr w1"
    and e: "w' = emit [MemReleaseEventData] w1"
    by (auto simp add: setup_done_def bind_err_def split: sum.splits)
  from release_cases [OF r] e None show ?thesis by simp
next
  case (Some c)
  assume a: "setup_done w = Inr w'"
  with Some have "w' = emit [MemReleaseEventData] w"
    by (auto simp add: setup_done_def)
  with Some show ?thesis by simp
qed

lemma setup_done_total:
  "(connection w = None \<longrightarrow> 0 < ref_count w) \<Longrightarrow> \<exists>w'. setup_done w = Inr w'"
proof (cases "connection w")
  case None
  assume "connection w = None \<longrightarrow> 0 < ref_count w"
  with None have "0 < ref_count w" by simp
  from release_total [OF this] None show ?thesis
    by (auto simp add: setup_done_def)
next
  case (Some c)
  then show ?thesis by (simp add: setup_done_def)
qed

lemma setup_close_unfold:
  "setup_close env w = setup_done (emit (native_close (connection w)) (s_close_binding env w))"
  by (simp add: setup_close_def Let_def)

lemma native_close_filters [simp]:
  "filter is_native_call (native_close c) = native_close c"
  "filter is_host_callback (native_close c) = []"
  "filter is_ref_op (native_close c) = []"
  "count_list (native_close c) MemReleaseBinding = 0"
  by (simp_all add: native_close_def split: option.splits)

lemma setup_close_cases:
  "setup_close env w = Inr w' \<Longrightarrow>
     (connection w = None \<longrightarrow> 0 < ref_count w) \<and>
     ref_count w' = (if connection w = None then ref_count w - 1 else ref_count w) \<and>
     connection w' = connection w \<and> is_closed w' \<and>
     setup_queue w' = setup_queue w \<and> shutdown_queue w' = shutdown_queue w \<and>
     message_queue w' = message_queue w \<and>
     host_callbacks w' = host_callbacks w \<and>
     native_calls w' = native_calls w @ native_close (connection w) \<and>
     ref_ops w' = ref_ops w @ (if connection w = None then [ReleaseBinding] else []) \<and>
     finalizer_runs w' =
       finalizer_runs w + (if connection w = None \<and> ref_count w = 1 then 1 else 0)"
proof -
  assume "setup_close env w = Inr w'"
  then have "setup_done (emit (native_close (connection w)) (s_close_binding env w)) = Inr w'"
    by (simp add: setup_close_unfold)
  from setup_done_cases [OF this] show ?thesis by simp
qed

lemma setup_close_total:
  "(connection w = None \<longrightarrow> 0 < ref_count w) \<Longrightarrow> \<exists>w'. setup_close env w = Inr w'"
proof -
  assume a: "connection w = None \<longrightarrow> 0 < ref_count w"
  let ?w1 = "emit (native_close (connection w)) (s_close_binding env w)"
  from a have "connection ?w1 = None \<longrightarrow> 0 < ref_count ?w1" by simp
  from setup_done_total [OF this] show ?thesis by (simp add: setup_close_unfold)
qed


lemma setup_unfold:
  "s_napi_on_event_stream_client_connection_setup env (ContextEventData d) u w =
     (if notifies env w
      then if dispatch_succeeds env
           then setup_done (emit [HostSetupCallback (ev_error_code d)]
                  (w\<lparr>connection := ev_connection d\<rparr>))
           else Inl (FatalAssert ensure_dispatch_threadsafe_function)
      else setup_close env (w\<lparr>connection := ev_connection d\<rparr>))"
  by (simp add: s_napi_on_event_stream_client_connection_setup_def notifies_def
      dispatch_succeeds_def Let_def split: option.splits)

lemma shutdown_unfold:
  "s_napi_event_stream_connection_on_connection_shutdown env (ContextEventData d) u w =
     (if connection w = None then Inl (FatalAssert assert_connection_not_null)
      else if notifies env w
      then if dispatch_succeeds env
           then shutdown_done env (emit [HostShutdownCallback (ev_error_code d)] w)
           else Inl (FatalAssert ensure_dispatch_threadsafe_function)
      else shutdown_done env w)"
  by (simp add: s_napi_event_stream_connection_on_connection_shutdown_def notifies_def
      dispatch_succeeds_def Let_def split: option.splits)

lemma setup_cases:
  assumes "s_napi_on_event_stream_client_connection_setup env (ContextEventData d) u w = Inr w'"
  shows "(ev_connection d = None \<longrightarrow> 0 < ref_count w) \<and>
     ref_count w' = (if ev_connection d = None then ref_count w - 1 else ref_count w) \<and>
     connection w' = ev_connection d \<and> is_closed w' = (\<not> notifies env w) \<and>
     setup_queue w' = setup_queue w \<and> shutdown_queue w' = shutdown_queue w \<and>
     message_queue w' = message_queue w \<and>
     host_callbacks w' =
       host_callbacks w @ (if notifies env w then [HostSetupCallback (ev_error_code d)] else []) \<and>
     native_calls w' =
       native_calls w @ (if notifies env w then [] else native_close (ev_connection d)) \<and>
     ref_ops w' = ref_ops w @ (if ev_connection d = None then [ReleaseBinding] else []) \<and>
     finalizer_runs w' =
       finalizer_runs w + (if ev_connection d = None \<and> ref_count w = 1 then 1 else 0)"
proof (cases "notifies env w")
  case True
  with assms have
    "setup_done (emit [HostSetupCallback (ev_error_code d)] (w\<lparr>connection := ev_connection d\<rparr>)) = Inr w'"
    by (simp add: setup_unfold split: if_splits)
  from setup_done_cases [OF this] True show ?thesis
    by (simp add: notifies_def)
next
  case False
  with assms have "setup_close env (w\<lparr>connection := ev_connection d\<rparr>) = Inr w'"
    by (simp add: setup_unfold)
  from setup_close_cases [OF this] False show ?thesis by simp
qed

lemma setup_total:
  assumes "ev_connection d = None \<longrightarrow> 0 < ref_count w"
    and "notifies env w \<longrightarrow> dispatch_succeeds env"
  shows "\<exists>w'. s_napi_on_event_stream_client_connection_setup env (ContextEventData d) u w = Inr w'"
proof (cases "notifies env w")
  case True
  let ?w1 = "emit [HostSetupCallback (ev_error_code d)] (w\<lparr>connection := ev_connection d\<rparr>)"
  from assms(1) have "connection ?w1 = None \<longrightarrow> 0 < ref_count ?w1" by simp
  from setup_done_total [OF this] True assms(2) show ?thesis
    by (simp add: setup_unfold)
next
  case False
  let ?w1 = "w\<lparr>connection := ev_connection d\<rparr>"
  from assms(1) have "connection ?w1 = None \<longrightarrow> 0 < ref_count ?w1" by simp
  from setup_close_total [OF this] False show ?thesis
    by (simp add: setup_unfold)
qed

lemma shutdown_cases:
  assumes "s_napi_event_stream_connection_on_connection_shutdown env (ContextEventData d) u w = Inr w'"
  shows "connection w \<noteq> None \<and> 0 < ref_count w \<and> ref_count w' = ref_count w - 1 \<and>
     connection w' = None \<and> is_closed w' \<and>
     setup_queue w' = setup_queue w \<and> shutdown_queue w' = shutdown_queue w \<and>
     message_queue w' = message_queue w \<and>
     host_callbacks w' =
       host_callbacks w @ (if notifies env w then [HostShutdownCallback (ev_error_code d)] else []) \<and>
     native_calls w' = native_calls w @ native_release (connection w) \<and>
     ref_ops w' = ref_ops w @ [ReleaseBinding] \<and>
     finalizer_runs w' = finalizer_runs w + (if ref_count w = 1 then 1 else 0)"
proof (cases "notifies env w")
  case True
  with assms have c: "connection w \<noteq> None"
    and "shutdown_done env (emit [HostShutdownCallback (ev_error_code d)] w) = Inr w'"
    by (simp_all add: shutdown_unfold split: if_splits)
  from shutdown_done_cases [OF this(2)] True c show ?thesis by simp
next
  case False
  with assms have c: "connection w \<noteq> None" and "shutdown_done env w = Inr w'"
    by (simp_all add: shutdown_unfold split: if_splits)
  from shutdown_done_cases [OF this(2)] False c show ?thesis by simp
qed

lemma shutdown_total:
  assumes "connection w \<noteq> None" and "0 < ref_count w"
    and "notifies env w \<longrightarrow> dispatch_succeeds env"
  shows "\<exists>w'. s_napi_event_stream_connection_on_connection_shutdown env (ContextEventData d) u w = Inr w'"
proof (cases "notifies env w")
  case True
  from assms(2) have "0 < ref_count (emit [HostShutdownCallback (ev_error_code d)] w)" by simp
  from shutdown_done_total [OF this] True assms show ?thesis
    by (simp add: shutdown_unfold)
next
  case False
  from shutdown_done_total [OF assms(2)] False assms(1) show ?thesis
    by (simp add: shutdown_unfold)
qed

section \<open>Facts about connect and about the example values\<close>

lemma connect_started:
  assumes "get_cb_info_ok env" "\<not> is_closed w" "connection w = None"
    "create_threadsafe_function_ok env cb"
  shows "aws_napi_event_stream_client_connection_connect env [JsExternal (Some b), cb] True w =
     Inr (Returned JsUndefined,
       emit [NativeConnect True]
         (s_aws_event_stream_client_connection_binding_acquire
           (w\<lparr>on_connection_setup := Some (Tsfn cb name_on_connection_setup ContextBinding)\<rparr>)))"
  using assms by (simp add: aws_napi_event_stream_client_connection_connect_def Let_def)



lemma notifies_update [simp]:
  "notifies env (w\<lparr>setup_queue := q\<rparr>) = notifies env w"
  "notifies env (w\<lparr>shutdown_queue := q\<rparr>) = notifies env w"
  "notifies env (w\<lparr>connection := c\<rparr>) = notifies env w"
  "notifies env (w\<lparr>message_queue := m\<rparr>) = notifies env w"
  by (simp_all add: notifies_def split: option.splits)

lemma fresh_binding_ref_count: "ref_count fresh_binding = 1"
  by (simp add: fresh_binding_def aws_ref_count_init_def calloc_binding_def)

lemma fresh_binding_finalizer_runs: "finalizer_runs fresh_binding = 0"
  by (simp add: fresh_binding_def aws_ref_count_init_def calloc_binding_def finalizer_runs_def)

lemma fresh_binding_facts:
  "\<not> is_closed fresh_binding" "connection fresh_binding = None"
  "setup_queue fresh_binding = []" "shutdown_queue fresh_binding = []"
  "message_queue fresh_binding = []"
  "ref_ops fresh_binding = []" "host_callbacks fresh_binding = []"
  "native_calls fresh_binding = []"
  by (simp_all add: fresh_binding_def aws_ref_count_init_def calloc_binding_def
      ref_ops_def host_callbacks_def native_calls_def)

lemma host_env_facts:
  "get_cb_info_ok host_env" "create_threadsafe_function_ok host_env v"
  "dispatch_succeeds (Some host_env)" "dispatch_succeeds None"
  by (simp_all add: host_env_def dispatch_succeeds_def)

lemma closed_binding_facts:
  "is_closed closed_binding" "connection closed_binding = None"
  "ref_count closed_binding = 1" "host_callbacks closed_binding = []"
  by (simp_all add: closed_binding_def fresh_binding_facts fresh_binding_ref_count)

lemma connected_binding_facts:
  "\<not> is_closed connected_binding" "connection connected_binding = Some 7"
  "ref_count connected_binding = 2"
  by (simp_all add: connected_binding_def fresh_binding_facts)

lemma connected_binding_ref_ops:
  "ref_ops connected_binding = [AcquireBinding]"
  by (simp add: connected_binding_def ref_ops_def)

lemma not_notifies:
  "is_closed w \<or> \<not> host_proxy_resolves env w \<Longrightarrow> \<not> notifies env w"
  by (auto simp add: notifies_def host_proxy_resolves_def split: option.splits)

section \<open>The delivery functions, handed the event record as their context\<close>

text \<open>
  What the two delivery functions do to the outstanding reference when their context
  points to an event record: the setup function releases it exactly when the
  connection field is empty at its end, the shutdown function releases it once,
  provided it finds a connection in the binding.
\<close>

lemma setup_function_release:
  assumes "ev_connection d = None \<longrightarrow> 0 < ref_count x"
    and "notifies e x \<longrightarrow> dispatch_succeeds e"
  shows "\<exists>x'. s_napi_on_event_stream_client_connection_setup e (ContextEventData d) u x = Inr x' \<and>
           connection x' = ev_connection d \<and>
           ref_ops x' = ref_ops x @ (if connection x' = None then [ReleaseBinding] else []) \<and>
           ref_count x' = (if connection x' = None then ref_count x - 1 else ref_count x)"
proof -
  from setup_total [OF assms] obtain x' where
    s: "s_napi_on_event_stream_client_connection_setup e (ContextEventData d) u x = Inr x'"
    by blast
  from setup_cases [OF s] have
    "connection x' = ev_connection d \<and>
     ref_ops x' = ref_ops x @ (if connection x' = None then [ReleaseBinding] else []) \<and>
     ref_count x' = (if connection x' = None then ref_count x - 1 else ref_count x)"
    by simp
  with s show ?thesis by (intro exI [of _ x']) simp
qed

lemma shutdown_function_release:
  assumes "connection x \<noteq> None" and "0 < ref_count x"
    and "notifies e x \<longrightarrow> dispatch_succeeds e"
  shows "\<exists>x'. s_napi_event_stream_connection_on_connection_shutdown e (ContextEventData d) u x =
             Inr x' \<and>
           connection x' = None \<and> ref_ops x' = ref_ops x @ [ReleaseBinding] \<and>
           ref_count x' = ref_count x - 1"
proof -
  from shutdown_total [OF assms] obtain x' where
    s: "s_napi_event_stream_connection_on_connection_shutdown e (ContextEventData d) u x = Inr x'"
    by blast
  from shutdown_cases [OF s] have
    "connection x' = None \<and> ref_ops x' = ref_ops x @ [ReleaseBinding] \<and>
     ref_count x' = ref_count x - 1"
    by simp
  with s show ?thesis by (intro exI [of _ x']) simp
qed

text \<open>
  The setup function on an abandoned binding, followed at once by the shutdown
  function: no host callback, one native close, then one native release.
\<close>

lemma abandoned_setup_function:
  assumes ab: "is_closed w \<or> \<not> host_proxy_resolves env w" and pos: "0 < ref_count w"
  shows "\<exists>w1. s_napi_on_event_stream_client_connection_setup env (ContextEventData d) u w = Inr w1 \<and>
           is_closed w1 \<and> host_callbacks w1 = host_callbacks w \<and>
           connection w1 = ev_connection d \<and>
           native_calls w1 = native_calls w @ native_close (ev_connection d) \<and>
           (\<forall>c. ev_connection d = Some c \<longrightarrow>
              ref_count w1 = ref_count w \<and>
              (\<forall>env' d' u'. \<exists>w2.
                 s_napi_event_stream_connection_on_connection_shutdown env' (ContextEventData d') u' w1 = Inr w2 \<and>
                 host_callbacks w2 = host_callbacks w \<and>
                 native_calls w2 = native_calls w @
                   [NativeClose c AWS_CRT_NODEJS_ERROR_EVENT_STREAM_SETUP_ALREADY_CLOSED,
                    NativeRelease c] \<and>
                 connection w2 = None \<and> ref_count w2 = ref_count w - 1))"
proof -
  from ab have nn: "\<not> notifies env w" by (rule not_notifies)
  have p1: "ev_connection d = None \<longrightarrow> 0 < ref_count w" using pos by simp
  have p2: "notifies env w \<longrightarrow> dispatch_succeeds env" using nn by simp
  from setup_total [OF p1 p2] obtain w1 where
    s: "s_napi_on_event_stream_client_connection_setup env (ContextEventData d) u w = Inr w1" by blast
  from setup_cases [OF s] nn have f1:
    "is_closed w1" "host_callbacks w1 = host_callbacks w" "connection w1 = ev_connection d"
    "native_calls w1 = native_calls w @ native_close (ev_connection d)"
    "ref_count w1 = (if ev_connection d = None then ref_count w - 1 else ref_count w)"
    by simp_all
  have later: "ref_count w1 = ref_count w \<and>
              (\<forall>env' d' u'. \<exists>w2.
                 s_napi_event_stream_connection_on_connection_shutdown env' (ContextEventData d') u' w1 = Inr w2 \<and>
                 host_callbacks w2 = host_callbacks w \<and>
                 native_calls w2 = native_calls w @
                   [NativeClose c AWS_CRT_NODEJS_ERROR_EVENT_STREAM_SETUP_ALREADY_CLOSED,
                    NativeRelease c] \<and>
                 connection w2 = None \<and> ref_count w2 = ref_count w - 1)"
    if c: "ev_connection d = Some c" for c
  proof (intro conjI allI)
    from f1(5) c show r1: "ref_count w1 = ref_count w" by simp
    fix env' :: "napi_env option" and d' :: event_data and u' :: context_ptr
    have n1: "\<not> notifies env' w1" using f1(1) by (simp add: notifies_def)
    have c1: "connection w1 \<noteq> None" using f1(3) c by simp
    have q1: "0 < ref_count w1" using r1 pos by simp
    have q2: "notifies env' w1 \<longrightarrow> dispatch_succeeds env'" using n1 by simp
    from shutdown_total [OF c1 q1 q2] obtain w2 where
      s2: "s_napi_event_stream_connection_on_connection_shutdown env' (ContextEventData d') u' w1 = Inr w2" by blast
    from shutdown_cases [OF s2] n1 f1 c r1 have
      "host_callbacks w2 = host_callbacks w \<and>
       native_calls w2 = native_calls w @
         [NativeClose c AWS_CRT_NODEJS_ERROR_EVENT_STREAM_SETUP_ALREADY_CLOSED, NativeRelease c] \<and>
       connection w2 = None \<and> ref_count w2 = ref_count w - 1"
      by (simp add: native_close_def native_release_def)
    with s2 show "\<exists>w2.
                 s_napi_event_stream_connection_on_connection_shutdown env' (ContextEventData d') u' w1 = Inr w2 \<and>
                 host_callbacks w2 = host_callbacks w \<and>
                 native_calls w2 = native_calls w @
                   [NativeClose c AWS_CRT_NODEJS_ERROR_EVENT_STREAM_SETUP_ALREADY_CLOSED,
                    NativeRelease c] \<and>
                 connection w2 = None \<and> ref_count w2 = ref_count w - 1"
      by (intro exI [of _ w2]) simp
  qed
  show ?thesis
    by (rule exI [of _ w1]) (use s f1 later in simp)
qed

section \<open>Preconditions of connect\<close>

text \<open>
  C6, as amended. When the arguments can be read and the first is an external with
  a non-null pointer: connect on a closed binding is a recoverable error (the
  exception for an already closed connection is thrown and the world is unchanged),
  also when the connection field is non-empty; connect on a binding that is not
  closed and whose connection field is non-empty is a fault (a fatal assertion).
\<close>

theorem connect_precondition_violations:
  "get_cb_info_ok env \<Longrightarrow>
     (is_closed w \<longrightarrow>
        aws_napi_event_stream_client_connection_connect env [JsExternal (Some b), cb] ok w =
          Inr (Threw connect_err_closed, w)) \<and>
     (\<not> is_closed w \<and> connection w \<noteq> None \<longrightarrow>
        aws_napi_event_stream_client_connection_connect env [JsExternal (Some b), cb] ok w =
          Inl (FatalAssert assert_connection_null))"
  by (simp add: aws_napi_event_stream_client_connection_connect_def)

theorem connect_precondition_violations_witness:
  "get_cb_info_ok host_env \<and> is_closed closed_binding \<and>
   aws_napi_event_stream_client_connection_connect host_env
     [JsExternal (Some binding_ptr), JsFunction 3] True closed_binding =
     Inr (Threw connect_err_closed, closed_binding) \<and>
   \<not> is_closed connected_binding \<and> connection connected_binding \<noteq> None \<and>
   aws_napi_event_stream_client_connection_connect host_env
     [JsExternal (Some binding_ptr), JsFunction 3] True connected_binding =
     Inl (FatalAssert assert_connection_null)"
  using connect_precondition_violations [OF host_env_facts(1), of closed_binding binding_ptr
      "JsFunction 3" True]
    connect_precondition_violations [OF host_env_facts(1), of connected_binding binding_ptr
      "JsFunction 3" True]
  by (simp add: host_env_facts closed_binding_facts connected_binding_facts)

text \<open>
  The claim as first stated fails: connect on a closed binding returns to the caller
  with an exception, it is not a fault.
\<close>

theorem connect_after_close_counterexample:
  "aws_napi_event_stream_client_connection_connect host_env
     [JsExternal (Some binding_ptr), JsFunction 3] True closed_binding =
     Inr (Threw connect_err_closed, closed_binding)"
  by (simp add: aws_napi_event_stream_client_connection_connect_def host_env_facts
      closed_binding_facts)

text \<open>The earlier revision in the same file asserts both preconditions.\<close>

lemma connect_earlier_precondition_violations:
  "get_cb_info_ok env \<Longrightarrow>
     (connection w \<noteq> None \<longrightarrow>
        aws_napi_event_stream_client_connection_connect_earlier env [JsExternal (Some b), cb] ok w =
          Inl (FatalAssert assert_connection_null)) \<and>
     (connection w = None \<and> is_closed w \<longrightarrow>
        aws_napi_event_stream_client_connection_connect_earlier env [JsExternal (Some b), cb] ok w =
          Inl (FatalAssert assert_not_closed))"
  by (simp add: aws_napi_event_stream_client_connection_connect_earlier_def)

section \<open>The closed flag\<close>

lemma close_cases:
  "snd (aws_napi_event_stream_client_connection_close env info w) = w \<or>
   snd (aws_napi_event_stream_client_connection_close env info w) = s_close_binding (Some env) w"
  by (simp add: aws_napi_event_stream_client_connection_close_def
      split: list.splits napi_value.splits option.splits)

lemma connect_closed:
  "is_closed w \<Longrightarrow>
   aws_napi_event_stream_client_connection_connect env info ok w = Inr r \<Longrightarrow> snd r = w"
  by (auto simp add: aws_napi_event_stream_client_connection_connect_def
      split: if_splits list.splits napi_value.splits option.splits)

lemma setup_function_closed:
  assumes "s_napi_on_event_stream_client_connection_setup env c u w = Inr w'" and "is_closed w"
  shows "is_closed w' \<and> host_callbacks w' = host_callbacks w"
proof (cases c)
  case (ContextEventData d)
  from assms(2) have "\<not> notifies env w" by (simp add: notifies_def)
  with setup_cases [OF assms(1) [unfolded ContextEventData]] show ?thesis by simp
qed (use assms(1) in \<open>simp_all add: s_napi_on_event_stream_client_connection_setup_def\<close>)

lemma shutdown_function_closed:
  assumes "s_napi_event_stream_connection_on_connection_shutdown env c u w = Inr w'"
    and "is_closed w"
  shows "is_closed w' \<and> host_callbacks w' = host_callbacks w"
proof (cases c)
  case (ContextEventData d)
  from assms(2) have "\<not> notifies env w" by (simp add: notifies_def)
  with shutdown_cases [OF assms(1) [unfolded ContextEventData]] show ?thesis by simp
qed (use assms(1) in \<open>simp_all add: s_napi_event_stream_connection_on_connection_shutdown_def\<close>)

lemma closed_step:
  assumes "run_operation x w = Inr w'" and "is_closed w"
  shows "is_closed w' \<and> host_callbacks w' = host_callbacks w"
proof (cases x)
  case (Close env info)
  with assms(1) have "w' = snd (aws_napi_event_stream_client_connection_close env info w)"
    by simp
  with close_cases [of env info w] assms(2) show ?thesis by auto
next
  case (Connect env info ok)
  with assms(1) obtain r where
    "aws_napi_event_stream_client_connection_connect env info ok w = Inr r" and "w' = snd r"
    by (auto simp add: bind_err_def split: sum.splits)
  with connect_closed [OF assms(2)] assms(2) show ?thesis by simp
next
  case (ExternFinalize env)
  with assms show ?thesis
    by (auto simp add: s_aws_event_stream_client_connection_extern_finalize_def
        split: option.splits)
next
  case (NativeSetupEvent c e q)
  with assms show ?thesis
    by (auto simp add: s_aws_event_stream_rpc_client_on_connection_setup_fn_def
        split: if_splits)
next
  case (NativeShutdownEvent c e q)
  with assms show ?thesis
    by (auto simp add: s_aws_event_stream_rpc_client_on_connection_shutdown_fn_def
        split: if_splits)
next
  case NativeProtocolMessage
  with assms show ?thesis
    by (simp add: s_aws_event_stream_rpc_client_connection_protocol_message_fn_def)
next
  case (SetupDelivery env)
  show ?thesis
  proof (cases "setup_queue w")
    case Nil
    with SetupDelivery assms show ?thesis by (simp add: deliver_setup_def)
  next
    case (Cons d ds)
    show ?thesis
    proof (cases "on_connection_setup w")
      case None
      with Cons SetupDelivery assms show ?thesis by (simp add: deliver_setup_def)
    next
      case (Some t)
      obtain f name c where t: "t = Tsfn f name c" by (cases t)
      from Cons Some t SetupDelivery assms(1) have
        s: "s_napi_on_event_stream_client_connection_setup env c (ContextEventData d)
              (w\<lparr>setup_queue := ds\<rparr>) = Inr w'"
        by (simp add: deliver_setup_def)
      from assms(2) have "is_closed (w\<lparr>setup_queue := ds\<rparr>)" by simp
      from setup_function_closed [OF s this] show ?thesis by simp
    qed
  qed
next
  case (ShutdownDelivery env)
  show ?thesis
  proof (cases "shutdown_queue w")
    case Nil
    with ShutdownDelivery assms show ?thesis by (simp add: deliver_shutdown_def)
  next
    case (Cons d ds)
    show ?thesis
    proof (cases "on_connection_shutdown w")
      case None
      with Cons ShutdownDelivery assms show ?thesis by (simp add: deliver_shutdown_def)
    next
      case (Some t)
      obtain f name c where t: "t = Tsfn f name c" by (cases t)
      from Cons Some t ShutdownDelivery assms(1) have
        s: "s_napi_event_stream_connection_on_connection_shutdown env c (ContextEventData d)
              (w\<lparr>shutdown_queue := ds\<rparr>) = Inr w'"
        by (simp add: deliver_shutdown_def)
      from assms(2) have "is_closed (w\<lparr>shutdown_queue := ds\<rparr>)" by simp
      from shutdown_function_closed [OF s this] show ?thesis by simp
    qed
  qed
next
  case (ProtocolMessageDelivery env)
  with assms show ?thesis
    by (auto simp add: deliver_message_def s_napi_event_stream_connection_on_protocol_message_def
        split: list.splits option.splits napi_threadsafe_function.splits)
next
  case Acquire
  with assms show ?thesis by auto
next
  case Release
  with assms(1) have "s_aws_event_stream_client_connection_binding_release w = Inr w'" by simp
  from release_cases [OF this] assms(2) show ?thesis by simp
next
  case (SetupCall env c u)
  with assms(1) have "s_napi_on_event_stream_client_connection_setup env c u w = Inr w'"
    by simp
  from setup_function_closed [OF this assms(2)] show ?thesis .
next
  case (ShutdownCall env c u)
  with assms(1) have
    "s_napi_event_stream_connection_on_connection_shutdown env c u w = Inr w'"
    by simp
  from shutdown_function_closed [OF this assms(2)] show ?thesis .
qed

text \<open>
  C7. For every sequence of operations that the host and the native library can
  issue on a binding (close, connect, the finalizer of the external, the native
  callbacks, the deliveries of queued payloads, acquire and release), and of
  applications of the two delivery functions to any context, if the binding is
  closed before the sequence then it is closed after it, and the deliveries in the
  sequence have invoked no host callback.
\<close>

theorem closed_is_monotonic:
  "run_operations ops w = Inr w' \<Longrightarrow> is_closed w \<Longrightarrow>
     is_closed w' \<and> host_callbacks w' = host_callbacks w"
proof (induction ops arbitrary: w)
  case Nil
  then show ?case by simp
next
  case (Cons x xs)
  from Cons.prems(1) obtain w1 where s: "run_operation x w = Inr w1"
    and r: "run_operations xs w1 = Inr w'"
    by (auto simp add: bind_err_def split: sum.splits)
  from closed_step [OF s Cons.prems(2)] have c: "is_closed w1"
    and h: "host_callbacks w1 = host_callbacks w" by simp_all
  from Cons.IH [OF r c] h show ?case by simp
qed

lemmas eval_defs =
  closed_binding_def connected_binding_def fresh_binding_def host_env_def calloc_binding_def
  aws_ref_count_init_def binding_ptr_def
  bind_err_def emit_def
  aws_napi_event_stream_client_connection_close_def
  aws_napi_event_stream_client_connection_connect_def
  s_aws_event_stream_client_connection_extern_finalize_def
  s_aws_event_stream_rpc_client_on_connection_setup_fn_def
  s_aws_event_stream_rpc_client_on_connection_shutdown_fn_def
  s_aws_event_stream_rpc_client_connection_protocol_message_fn_def
  deliver_setup_def deliver_shutdown_def deliver_message_def
  s_napi_on_event_stream_client_connection_setup_def
  s_napi_event_stream_connection_on_connection_shutdown_def
  s_napi_event_stream_connection_on_protocol_message_def
  setup_close_def setup_done_def shutdown_done_def native_close_def native_release_def
  napi_get_reference_value_def
  s_close_binding_def delete_reference_def
  s_aws_event_stream_client_connection_binding_acquire_def
  s_aws_event_stream_client_connection_binding_release_def
  aws_ref_count_acquire_def aws_ref_count_release_def
  s_aws_event_stream_client_connection_binding_on_zero_def clean_threadsafe_function_def
  Let_def

lemma closed_run:
  "\<exists>w'. run_operations
     [Acquire,
      SetupCall (Some host_env) (ContextEventData \<lparr>ev_error_code = 0, ev_connection = Some 7\<rparr>)
        ContextNull,
      ShutdownCall (Some host_env) (ContextEventData \<lparr>ev_error_code = 0, ev_connection = Some 7\<rparr>)
        ContextNull,
      SetupDelivery (Some host_env),
      Close host_env [JsExternal (Some binding_ptr)]] closed_binding = Inr w'"
  by (simp add: eval_defs)

theorem closed_is_monotonic_witness:
  "is_closed closed_binding \<and>
   (\<exists>w'. run_operations
     [Acquire,
      SetupCall (Some host_env) (ContextEventData \<lparr>ev_error_code = 0, ev_connection = Some 7\<rparr>)
        ContextNull,
      ShutdownCall (Some host_env) (ContextEventData \<lparr>ev_error_code = 0, ev_connection = Some 7\<rparr>)
        ContextNull,
      SetupDelivery (Some host_env),
      Close host_env [JsExternal (Some binding_ptr)]] closed_binding = Inr w' \<and>
      is_closed w' \<and> host_callbacks w' = [])"
proof -
  from closed_run obtain w' where r: "run_operations
     [Acquire,
      SetupCall (Some host_env) (ContextEventData \<lparr>ev_error_code = 0, ev_connection = Some 7\<rparr>)
        ContextNull,
      ShutdownCall (Some host_env) (ContextEventData \<lparr>ev_error_code = 0, ev_connection = Some 7\<rparr>)
        ContextNull,
      SetupDelivery (Some host_env),
      Close host_env [JsExternal (Some binding_ptr)]] closed_binding = Inr w'" ..
  from closed_is_monotonic [OF r closed_binding_facts(1)]
  have c: "is_closed w'" and h: "host_callbacks w' = []"
    by (simp_all add: closed_binding_facts)
  have "\<exists>w'. run_operations
     [Acquire,
      SetupCall (Some host_env) (ContextEventData \<lparr>ev_error_code = 0, ev_connection = Some 7\<rparr>)
        ContextNull,
      ShutdownCall (Some host_env) (ContextEventData \<lparr>ev_error_code = 0, ev_connection = Some 7\<rparr>)
        ContextNull,
      SetupDelivery (Some host_env),
      Close host_env [JsExternal (Some binding_ptr)]] closed_binding = Inr w' \<and>
      is_closed w' \<and> host_callbacks w' = []"
    by (intro exI [of _ w'] conjI r c h)
  then show ?thesis by (simp add: closed_binding_facts)
qed

section \<open>A connect that fails synchronously\<close>








section \<open>The outstanding-operation reference\<close>

text \<open>
  C1. The claim is evaluated on a fresh binding. First as the program runs: connect
  is accepted and acquires the reference, the native setup callback queues the
  event with connection 7, and the setup dispatcher, created with the binding as its
  context, hands the delivery function the binding where it reads an event record:
  the delivery faults, and the reference is released by no delivery. Second with
  the delivery functions applied to the event record: after the setup function has
  stored connection 7, the host closes, and the finalizer of the external clears the
  connection field, the shutdown function stops at its fatal assertion; the only
  reference operation of the attempt is still the acquire.
\<close>

theorem connect_attempt_reference_not_released:
  "(case run_operations
      [Connect host_env [JsExternal (Some binding_ptr), JsFunction 3] True, NativeSetupEvent (Some 7) 0 True] fresh_binding of
      Inl f \<Rightarrow> False
    | Inr x \<Rightarrow>
        ref_ops x = [AcquireBinding] \<and> ref_count x = 2 \<and>
        setup_queue x = [\<lparr>ev_error_code = 0, ev_connection = Some 7\<rparr>] \<and>
        on_connection_setup x =
          Some (Tsfn (JsFunction 3) name_on_connection_setup ContextBinding) \<and>
        run_operation (SetupDelivery (Some host_env)) x = Inl InvalidMemoryAccess) \<and>
   (case run_operations
      [Connect host_env [JsExternal (Some binding_ptr), JsFunction 3] True,
       SetupCall (Some host_env) (ContextEventData \<lparr>ev_error_code = 0, ev_connection = Some 7\<rparr>) ContextNull,
       Close host_env [JsExternal (Some binding_ptr)],
       ExternFinalize (Some host_env)] fresh_binding of
      Inl f \<Rightarrow> False
    | Inr y \<Rightarrow>
        ref_ops y = [AcquireBinding] \<and> ref_count y = 2 \<and> connection y = None \<and>
        run_operation (ShutdownCall (Some host_env) (ContextEventData \<lparr>ev_error_code = 0, ev_connection = Some 7\<rparr>) ContextNull) y =
          Inl (FatalAssert assert_connection_not_null))"
  by (simp add: eval_defs ref_ops_def)

section \<open>The finalizer of the external on a connected binding\<close>


section \<open>Setup deliveries to an abandoned binding\<close>

text \<open>
  C3. The claim is evaluated on a fresh binding on which connect was accepted and
  which the host then closed. As the program runs, the native setup callback queues
  the event with connection 7 and the setup dispatcher hands the delivery function
  the binding as its context: the delivery faults, the binding is not closed again
  and no native close is issued on connection 7. With the delivery function applied
  to the event record, the first part of the claim holds (no host callback, both
  host references cleared, one native close on connection 7, the reference kept),
  but when the finalizer of the external runs before the shutdown delivery, it is
  the finalizer that releases the native connection, and the shutdown function
  stops at its fatal assertion: the connection is not released through the
  shutdown path and the reference of the attempt is never released.
\<close>

theorem abandoned_setup_not_cleaned_up:
  "run_operations
     [Connect host_env [JsExternal (Some binding_ptr), JsFunction 3] True,
      Close host_env [JsExternal (Some binding_ptr)],
      NativeSetupEvent (Some 7) 0 True, SetupDelivery (Some host_env)] fresh_binding =
     Inl InvalidMemoryAccess \<and>
   (case run_operations
      [Connect host_env [JsExternal (Some binding_ptr), JsFunction 3] True,
       Close host_env [JsExternal (Some binding_ptr)],
       SetupCall (Some host_env) (ContextEventData \<lparr>ev_error_code = 0, ev_connection = Some 7\<rparr>) ContextNull] fresh_binding of
      Inl f \<Rightarrow> False
    | Inr x \<Rightarrow>
        host_callbacks x = [] \<and> is_closed x \<and> connection x = Some 7 \<and> ref_count x = 2 \<and>
        node_event_stream_client_connection_ref x = None \<and>
        node_event_stream_client_connection_external_ref x = None \<and>
        native_calls x =
          [NativeConnect True,
           NativeClose 7 AWS_CRT_NODEJS_ERROR_EVENT_STREAM_SETUP_ALREADY_CLOSED] \<and>
        (case run_operation (ExternFinalize (Some host_env)) x of
           Inl f \<Rightarrow> False
         | Inr y \<Rightarrow>
             native_calls y =
               [NativeConnect True,
                NativeClose 7 AWS_CRT_NODEJS_ERROR_EVENT_STREAM_SETUP_ALREADY_CLOSED,
                NativeRelease 7] \<and>
             ref_ops y = [AcquireBinding] \<and>
             run_operation (ShutdownCall (Some host_env) (ContextEventData \<lparr>ev_error_code = 0, ev_connection = Some 7\<rparr>) ContextNull) y =
               Inl (FatalAssert assert_connection_not_null)))"
  by (simp add: eval_defs ref_ops_def native_calls_def host_callbacks_def)

section \<open>Validation of the configuration by create\<close>

lemma host_property_valid:
  "(fst (aws_napi_get_named_property cfg AWS_EVENT_STREAM_PROPERTY_NAME_HOST napi_string) =
      AWS_NGNPR_VALID_VALUE) = host_name_present cfg"
proof (cases cfg)
  case (JsObject props)
  show ?thesis
  proof (cases "map_of props ''hostName''")
    case None
    with JsObject show ?thesis
      by (simp add: aws_napi_get_named_property_def host_name_present_def
          AWS_EVENT_STREAM_PROPERTY_NAME_HOST_def)
  next
    case (Some v)
    with JsObject show ?thesis
      by (cases v)
        (simp_all add: aws_napi_get_named_property_def host_name_present_def
          AWS_EVENT_STREAM_PROPERTY_NAME_HOST_def aws_napi_is_null_or_undefined_def)
  qed
qed (simp_all add: aws_napi_get_named_property_def host_name_present_def)

lemma host_property_string:
  "aws_napi_get_named_property cfg AWS_EVENT_STREAM_PROPERTY_NAME_HOST napi_string =
      (AWS_NGNPR_VALID_VALUE, v) \<Longrightarrow> \<exists>s. v = JsString s"
proof (cases cfg)
  case (JsObject props)
  assume a: "aws_napi_get_named_property cfg AWS_EVENT_STREAM_PROPERTY_NAME_HOST napi_string =
      (AWS_NGNPR_VALID_VALUE, v)"
  show ?thesis
  proof (cases "map_of props AWS_EVENT_STREAM_PROPERTY_NAME_HOST")
    case None
    with JsObject a show ?thesis by (simp add: aws_napi_get_named_property_def)
  next
    case (Some u)
    with JsObject a show ?thesis
      by (cases u)
        (auto simp add: aws_napi_get_named_property_def aws_napi_is_null_or_undefined_def
          split: if_splits)
  qed
qed (simp_all add: aws_napi_get_named_property_def)

lemma port_property_valid:
  "(fst (aws_napi_get_named_property_as_uint16 cfg AWS_EVENT_STREAM_PROPERTY_NAME_PORT) =
      AWS_NGNPR_VALID_VALUE) = port_valid cfg"
proof (cases cfg)
  case (JsObject props)
  show ?thesis
  proof (cases "map_of props ''port''")
    case None
    with JsObject show ?thesis
      by (simp add: aws_napi_get_named_property_as_uint16_def aws_napi_get_named_property_def
          port_valid_def AWS_EVENT_STREAM_PROPERTY_NAME_PORT_def)
  next
    case (Some v)
    with JsObject show ?thesis
      by (cases v)
        (simp_all add: aws_napi_get_named_property_as_uint16_def aws_napi_get_named_property_def
          port_valid_def AWS_EVENT_STREAM_PROPERTY_NAME_PORT_def aws_napi_is_null_or_undefined_def)
  qed
qed (simp_all add: aws_napi_get_named_property_as_uint16_def aws_napi_get_named_property_def
      port_valid_def)

lemma pristine_init: "pristine (aws_ref_count_init calloc_binding)"
  by (simp add: pristine_def aws_ref_count_init_def calloc_binding_def)

lemma pristine_alive: "pristine w \<Longrightarrow> binding_alive w"
  by (simp add: pristine_def binding_alive_def finalizer_runs_def)

lemma s_init_invalid:
  assumes "\<not> host_name_present cfg \<or> \<not> port_valid cfg"
  shows "\<exists>w1. s_init_event_stream_connection_configuration_from_js_connection_configuration
             env cfg w = (Some AWS_ERROR_INVALID_ARGUMENT, w1) \<and>
           (pristine w \<longrightarrow> pristine w1) \<and>
           node_event_stream_client_connection_ref w1 = node_event_stream_client_connection_ref w"
proof -
  obtain r v where hp:
    "aws_napi_get_named_property cfg AWS_EVENT_STREAM_PROPERTY_NAME_HOST napi_string = (r, v)"
    by (cases "aws_napi_get_named_property cfg AWS_EVENT_STREAM_PROPERTY_NAME_HOST napi_string")
  obtain r2 p where pp:
    "aws_napi_get_named_property_as_uint16 cfg AWS_EVENT_STREAM_PROPERTY_NAME_PORT = (r2, p)"
    by (cases "aws_napi_get_named_property_as_uint16 cfg AWS_EVENT_STREAM_PROPERTY_NAME_PORT")
  from hp host_property_valid [of cfg] have h: "(r = AWS_NGNPR_VALID_VALUE) = host_name_present cfg"
    by simp
  from pp port_property_valid [of cfg] have q: "(r2 = AWS_NGNPR_VALID_VALUE) = port_valid cfg"
    by simp
  show ?thesis
  proof (cases "host_name_present cfg")
    case False
    with h have "r \<noteq> AWS_NGNPR_VALID_VALUE" by simp
    then show ?thesis
      by (cases r)
        (simp_all add: s_init_event_stream_connection_configuration_from_js_connection_configuration_def hp)
  next
    case True
    with h have rv: "r = AWS_NGNPR_VALID_VALUE" by simp
    from True assms q have "r2 \<noteq> AWS_NGNPR_VALID_VALUE" by simp
    then show ?thesis
      by (cases r2)
        (simp_all add: s_init_event_stream_connection_configuration_from_js_connection_configuration_def
          hp pp rv Let_def pristine_def)
  qed
qed

lemma new_options_arg_invalid:
  assumes "\<not> host_name_present cfg \<or> \<not> port_valid cfg"
  shows "\<exists>m w1. new_options_arg env cfg w = Inl (m, w1) \<and> (pristine w \<longrightarrow> pristine w1) \<and>
           node_event_stream_client_connection_ref w1 =
             node_event_stream_client_connection_ref w \<and>
           (\<not> aws_napi_is_null_or_undefined cfg \<longrightarrow> m = new_err_configuration)"
proof (cases "aws_napi_is_null_or_undefined cfg")
  case True
  then show ?thesis by (simp add: new_options_arg_def)
next
  case False
  from s_init_invalid [OF assms, of env w] obtain w1 where
    "s_init_event_stream_connection_configuration_from_js_connection_configuration
             env cfg w = (Some AWS_ERROR_INVALID_ARGUMENT, w1)"
    and "pristine w \<longrightarrow> pristine w1"
    and "node_event_stream_client_connection_ref w1 = node_event_stream_client_connection_ref w"
    by (elim exE conjE)
  with False show ?thesis by (simp add: new_options_arg_def)
qed

lemma new_connection_arg_cases:
  "(\<exists>m. new_connection_arg env a1 w = Inl (m, w) \<and>
        (aws_napi_is_null_or_undefined a1 \<or> \<not> create_reference_ok env a1)) \<or>
   (\<exists>w1. new_connection_arg env a1 w = Inr w1 \<and> (pristine w \<longrightarrow> pristine w1) \<and>
        node_event_stream_client_connection_ref w1 = Some (Ref a1))"
  by (simp add: new_connection_arg_def pristine_def)

lemma finalize_pristine:
  assumes "pristine w"
  shows "\<exists>w'. s_aws_event_stream_client_connection_extern_finalize fenv w = Inr w' \<and>
           ref_count w' = 0 \<and> finalizer_runs w' = 1 \<and> is_closed w' \<and>
           node_event_stream_client_connection_ref w' = None \<and>
           (\<forall>r. fenv \<noteq> None \<and> node_event_stream_client_connection_ref w = Some r \<longrightarrow>
              DeleteReference r \<in> set (trace w'))"
proof -
  from assms have c: "connection w = None" and o: "\<not> is_closed w" and r: "ref_count w = 1"
    and t: "trace w = []"
    by (simp_all add: pristine_def)
  let ?w' = "s_aws_event_stream_client_connection_binding_on_zero
      ((emit [ReleaseBinding] (s_close_binding fenv w))\<lparr>ref_count := 0\<rparr>)"
  from c o r have e: "s_aws_event_stream_client_connection_extern_finalize fenv w = Inr ?w'"
    by (simp add: s_aws_event_stream_client_connection_extern_finalize_def
        s_aws_event_stream_client_connection_binding_release_def aws_ref_count_release_def Let_def)
  have f: "ref_count ?w' = 0" "is_closed ?w'" by simp_all
  from t have "finalizer_runs w = 0" by (simp add: finalizer_runs_def)
  then have g: "finalizer_runs ?w' = 1" by simp
  have n: "node_event_stream_client_connection_ref ?w' = None"
    by (simp add: s_close_binding_def emit_def Let_def)
  have d: "\<forall>r. fenv \<noteq> None \<and> node_event_stream_client_connection_ref w = Some r \<longrightarrow>
              DeleteReference r \<in> set (trace ?w')"
    by (auto simp add: s_aws_event_stream_client_connection_binding_on_zero_def
        s_close_binding_def emit_def Let_def delete_reference_def)
  show ?thesis
    by (rule exI [of _ ?w']) (intro conjI e f g n d)
qed

text \<open>
  C5, as amended. For every host context and every argument list of six values
  whose configuration has no host name (no string property of that name) or whose
  port is not a valid 16-bit value (absent, not a number, 0, or above 65535), create
  throws and returns no handle; when the arguments before the configuration are
  accepted, the exception is the one for an invalid configuration, and the binding
  allocated for the call is still alive when create returns, with its construction
  reference and the reference to the host object. The failure leaves the cleaning
  up to the finalizer of the external: whenever create fails this way, either no
  binding was allocated, or it has been freed already, or it is alive and the
  finalizer, in any host context, closes it, deletes the reference to the host
  object, takes the count to zero and frees the binding exactly once.
\<close>

theorem create_rejects_invalid_configuration:
  assumes bad: "\<not> host_name_present cfg \<or> \<not> port_valid cfg"
  shows "\<exists>msg wo. aws_napi_event_stream_client_connection_new env [a1, cfg, a3, a4, a5, a6] =
             (Threw msg, wo) \<and>
           (get_cb_info_ok env \<and> create_external_ok env \<and>
            \<not> aws_napi_is_null_or_undefined a1 \<and> create_reference_ok env a1 \<and>
            \<not> aws_napi_is_null_or_undefined cfg \<longrightarrow>
              msg = new_err_configuration \<and>
              (\<exists>w. wo = Some w \<and> binding_alive w \<and> ref_count w = 1 \<and>
                 node_event_stream_client_connection_ref w = Some (Ref a1))) \<and>
           (case wo of
              None \<Rightarrow> True
            | Some w \<Rightarrow>
                if binding_alive w
                then \<forall>fenv. \<exists>w'.
                       s_aws_event_stream_client_connection_extern_finalize fenv w = Inr w' \<and>
                       ref_count w' = 0 \<and> finalizer_runs w' = 1 \<and> is_closed w' \<and>
                       node_event_stream_client_connection_ref w' = None \<and>
                       (\<forall>r. fenv \<noteq> None \<and>
                            node_event_stream_client_connection_ref w = Some r \<longrightarrow>
                          DeleteReference r \<in> set (trace w'))
                else finalizer_runs w = 1)"
proof (cases "get_cb_info_ok env")
  case False
  then show ?thesis by (simp add: aws_napi_event_stream_client_connection_new_def)
next
  case info: True
  show ?thesis
  proof (cases "create_external_ok env")
    case False
    with info show ?thesis
      by (simp add: aws_napi_event_stream_client_connection_new_def Let_def binding_alive_def
          finalizer_runs_def emit_def aws_ref_count_init_def calloc_binding_def)
  next
    case ext: True
    let ?w0 = "aws_ref_count_init calloc_binding"
    from new_connection_arg_cases [of env a1 ?w0] show ?thesis
    proof
      assume "\<exists>m. new_connection_arg env a1 ?w0 = Inl (m, ?w0) \<and>
        (aws_napi_is_null_or_undefined a1 \<or> \<not> create_reference_ok env a1)"
      then obtain m where s1: "new_connection_arg env a1 ?w0 = Inl (m, ?w0)"
        and n1: "aws_napi_is_null_or_undefined a1 \<or> \<not> create_reference_ok env a1"
        by (elim exE conjE)
      from info ext s1 have res:
        "aws_napi_event_stream_client_connection_new env [a1, cfg, a3, a4, a5, a6] =
           (Threw m, Some ?w0)"
        by (simp add: aws_napi_event_stream_client_connection_new_def Let_def)
      from finalize_pristine [OF pristine_init] pristine_alive [OF pristine_init] n1 res
      show ?thesis by auto
    next
      assume "\<exists>w1. new_connection_arg env a1 ?w0 = Inr w1 \<and> (pristine ?w0 \<longrightarrow> pristine w1) \<and>
        node_event_stream_client_connection_ref w1 = Some (Ref a1)"
      then obtain w1 where s1: "new_connection_arg env a1 ?w0 = Inr w1" and p1: "pristine w1"
        and r1: "node_event_stream_client_connection_ref w1 = Some (Ref a1)"
        using pristine_init by (elim exE conjE) simp
      from new_options_arg_invalid [OF bad, of env w1] p1 r1 obtain m w2 where
        s2: "new_options_arg env cfg w1 = Inl (m, w2)" and p2: "pristine w2"
        and r2: "node_event_stream_client_connection_ref w2 = Some (Ref a1)"
        and m2: "\<not> aws_napi_is_null_or_undefined cfg \<longrightarrow> m = new_err_configuration"
        by (elim exE conjE) simp
      from info ext s1 s2 have res:
        "aws_napi_event_stream_client_connection_new env [a1, cfg, a3, a4, a5, a6] =
           (Threw m, Some w2)"
        by (simp add: aws_napi_event_stream_client_connection_new_def Let_def)
      from p2 have c2: "ref_count w2 = 1" by (simp add: pristine_def)
      from finalize_pristine [OF p2] pristine_alive [OF p2] m2 res r2 c2
      show ?thesis by auto
    qed
  qed
qed

lemmas new_defs =
  aws_napi_event_stream_client_connection_new_def new_connection_arg_def new_options_arg_def
  new_shutdown_handler_arg_def new_message_handler_arg_def new_socket_options_arg_def
  new_tls_arg_def new_external_ref_def
  s_init_event_stream_connection_configuration_from_js_connection_configuration_def
  aws_napi_get_named_property_def aws_napi_get_named_property_as_uint16_def
  aws_string_new_from_napi_def aws_napi_is_null_or_undefined_def
  AWS_EVENT_STREAM_PROPERTY_NAME_HOST_def AWS_EVENT_STREAM_PROPERTY_NAME_PORT_def

theorem create_rejects_invalid_configuration_witness:
  "\<not> port_valid (JsObject [(''hostName'', JsString ''localhost''), (''port'', JsNumber 0)]) \<and>
   aws_napi_event_stream_client_connection_new host_env
       [JsObject [], JsObject [(''hostName'', JsString ''localhost''), (''port'', JsNumber 0)],
        JsFunction 1, JsFunction 2, JsUndefined, JsUndefined] =
     (Threw new_err_configuration,
      Some ((aws_ref_count_init calloc_binding)
              \<lparr>host := Some ''localhost'',
               node_event_stream_client_connection_ref := Some (Ref (JsObject []))\<rparr>)) \<and>
   \<not> host_name_present (JsObject [(''port'', JsNumber 8033)]) \<and>
   (\<exists>msg wo. aws_napi_event_stream_client_connection_new host_env
       [JsObject [], JsObject [(''port'', JsNumber 8033)],
        JsFunction 1, JsFunction 2, JsUndefined, JsUndefined] = (Threw msg, wo) \<and>
      msg = new_err_configuration)"
proof -
  have b0: "\<not> host_name_present
        (JsObject [(''hostName'', JsString ''localhost''), (''port'', JsNumber 0)]) \<or>
      \<not> port_valid (JsObject [(''hostName'', JsString ''localhost''), (''port'', JsNumber 0)])"
    by (simp add: port_valid_def)
  have b: "\<not> host_name_present (JsObject [(''port'', JsNumber 8033)]) \<or>
      \<not> port_valid (JsObject [(''port'', JsNumber 8033)])"
    by (simp add: host_name_present_def)
  from create_rejects_invalid_configuration [OF b0, of host_env "JsObject []" "JsFunction 1"
      "JsFunction 2" JsUndefined JsUndefined]
  have z: "aws_napi_event_stream_client_connection_new host_env
       [JsObject [], JsObject [(''hostName'', JsString ''localhost''), (''port'', JsNumber 0)],
        JsFunction 1, JsFunction 2, JsUndefined, JsUndefined] =
     (Threw new_err_configuration,
      Some ((aws_ref_count_init calloc_binding)
              \<lparr>host := Some ''localhost'',
               node_event_stream_client_connection_ref := Some (Ref (JsObject []))\<rparr>))"
    by (elim exE conjE) (simp add: new_defs host_env_def)
  from create_rejects_invalid_configuration [OF b, of host_env "JsObject []" "JsFunction 1"
      "JsFunction 2" JsUndefined JsUndefined]
  have m: "\<exists>msg wo. aws_napi_event_stream_client_connection_new host_env
       [JsObject [], JsObject [(''port'', JsNumber 8033)],
        JsFunction 1, JsFunction 2, JsUndefined, JsUndefined] = (Threw msg, wo) \<and>
      msg = new_err_configuration"
    by (elim exE conjE)
      (simp add: host_env_def aws_napi_is_null_or_undefined_def host_name_present_def)
  from z m show ?thesis
    by (simp add: port_valid_def host_name_present_def)
qed

lemma create_fresh_binding:
  "aws_napi_event_stream_client_connection_new host_env
     [JsObject [], JsObject [(''hostName'', JsString ''localhost''), (''port'', JsNumber 8033)],
      JsFunction 1, JsFunction 2, JsUndefined, JsUndefined] =
   (Returned (JsExternal (Some binding_ptr)), Some fresh_binding)"
  by (simp add: new_defs eval_defs)

text \<open>
  The claim as first stated fails: create with a configuration that lacks the host
  name throws, and leaves the binding it allocated alive, with one reference and
  with the reference to the host object it created.
\<close>

theorem create_failure_keeps_binding_counterexample:
  "aws_napi_event_stream_client_connection_new host_env
     [JsObject [], JsObject [(''port'', JsNumber 8033)],
      JsFunction 1, JsFunction 2, JsUndefined, JsUndefined] =
     (Threw new_err_configuration,
      Some ((aws_ref_count_init calloc_binding)
              \<lparr>node_event_stream_client_connection_ref := Some (Ref (JsObject []))\<rparr>)) \<and>
   binding_alive ((aws_ref_count_init calloc_binding)
              \<lparr>node_event_stream_client_connection_ref := Some (Ref (JsObject []))\<rparr>) \<and>
   ref_count ((aws_ref_count_init calloc_binding)
              \<lparr>node_event_stream_client_connection_ref := Some (Ref (JsObject []))\<rparr>) = 1"
  by (simp add: new_defs host_env_def bind_err_def binding_alive_def finalizer_runs_def
      aws_ref_count_init_def calloc_binding_def)

section \<open>The zero-count finalizer runs once, at zero\<close>

lemma balanced_zero: "balanced 0 xs \<Longrightarrow> xs = []"
proof (cases xs)
  case Nil
  then show ?thesis by simp
next
  case (Cons x ys)
  assume "balanced 0 xs"
  with Cons show ?thesis by (cases x) simp_all
qed

text \<open>
  C8. For every balanced sequence of acquire and release calls on a binding that
  holds at least one reference (the construction reference, after creation), every
  call returns, the count ends at zero and the finalizer has run exactly once more
  than before; after every proper prefix of the calls the count is still positive
  and the finalizer has not run. So the finalizer runs at the release that takes
  the count to zero, never while a reference is outstanding, and never twice.
\<close>

theorem finalizer_runs_once_at_zero:
  "balanced (ref_count w) ops \<Longrightarrow> 0 < ref_count w \<Longrightarrow>
     (\<exists>w'. run_operations ops w = Inr w' \<and> ref_count w' = 0 \<and>
           finalizer_runs w' = Suc (finalizer_runs w)) \<and>
     (\<forall>k<length ops. \<exists>wk. run_operations (take k ops) w = Inr wk \<and>
           0 < ref_count wk \<and> finalizer_runs wk = finalizer_runs w)"
proof (induction ops arbitrary: w)
  case Nil
  then show ?case by simp
next
  case (Cons x xs)
  show ?case
  proof (cases x)
    case Acquire
    let ?w1 = "s_aws_event_stream_client_connection_binding_acquire w"
    from Cons.prems Acquire have b: "balanced (ref_count ?w1) xs" by simp
    have pos: "0 < ref_count ?w1" by simp
    from Cons.IH [OF b pos] have ih:
      "(\<exists>w'. run_operations xs ?w1 = Inr w' \<and> ref_count w' = 0 \<and>
           finalizer_runs w' = Suc (finalizer_runs w))"
      "\<And>k. k < length xs \<Longrightarrow> \<exists>wk. run_operations (take k xs) ?w1 = Inr wk \<and>
           0 < ref_count wk \<and> finalizer_runs wk = finalizer_runs w"
      by simp_all
    have first: "\<exists>w'. run_operations (x # xs) w = Inr w' \<and> ref_count w' = 0 \<and>
           finalizer_runs w' = Suc (finalizer_runs w)"
      using ih(1) Acquire by simp
    have pre: "\<exists>wk. run_operations (take k (x # xs)) w = Inr wk \<and>
           0 < ref_count wk \<and> finalizer_runs wk = finalizer_runs w"
      if "k < length (x # xs)" for k
    proof (cases k)
      case 0
      then show ?thesis using Cons.prems by simp
    next
      case (Suc j)
      with that have "j < length xs" by simp
      from ih(2) [OF this] show ?thesis using Suc Acquire by simp
    qed
    from first pre show ?thesis by blast
  next
    case Release
    from release_Inr [OF Cons.prems(2)] obtain w1 where
      r: "s_aws_event_stream_client_connection_binding_release w = Inr w1"
      and c: "ref_count w1 = ref_count w - 1"
      and f: "finalizer_runs w1 = finalizer_runs w + (if ref_count w = 1 then 1 else 0)"
      by blast
    from Cons.prems Release c have b: "balanced (ref_count w1) xs" by simp
    show ?thesis
    proof (cases "ref_count w = 1")
      case True
      with c have z: "ref_count w1 = 0" by simp
      with b have "xs = []" by (simp add: balanced_zero)
      with r z f True Release Cons.prems show ?thesis by simp
    next
      case False
      with Cons.prems c have pos: "0 < ref_count w1" by simp
      from False f have f': "finalizer_runs w1 = finalizer_runs w" by simp
      from Cons.IH [OF b pos] f' have ih:
        "(\<exists>w'. run_operations xs w1 = Inr w' \<and> ref_count w' = 0 \<and>
           finalizer_runs w' = Suc (finalizer_runs w))"
        "\<And>k. k < length xs \<Longrightarrow> \<exists>wk. run_operations (take k xs) w1 = Inr wk \<and>
           0 < ref_count wk \<and> finalizer_runs wk = finalizer_runs w"
        by simp_all
      have first: "\<exists>w'. run_operations (x # xs) w = Inr w' \<and> ref_count w' = 0 \<and>
           finalizer_runs w' = Suc (finalizer_runs w)"
        using ih(1) Release r by simp
      have pre: "\<exists>wk. run_operations (take k (x # xs)) w = Inr wk \<and>
           0 < ref_count wk \<and> finalizer_runs wk = finalizer_runs w"
        if "k < length (x # xs)" for k
      proof (cases k)
        case 0
        then show ?thesis using Cons.prems by simp
      next
        case (Suc j)
        with that have "j < length xs" by simp
        from ih(2) [OF this] show ?thesis using Suc Release r by simp
      qed
      from first pre show ?thesis by blast
    qed
  qed (use Cons.prems in simp_all)
qed

theorem finalizer_runs_once_at_zero_witness:
  "balanced (ref_count fresh_binding) [Acquire, Acquire, Release, Release, Release] \<and>
   0 < ref_count fresh_binding \<and>
   (\<exists>w'. run_operations [Acquire, Acquire, Release, Release, Release] fresh_binding = Inr w' \<and>
          ref_count w' = 0 \<and> finalizer_runs w' = 1) \<and>
   (\<exists>wk. run_operations (take 4 [Acquire, Acquire, Release, Release, Release]) fresh_binding = Inr wk \<and>
          0 < ref_count wk \<and> finalizer_runs wk = 0)"
proof -
  have b: "balanced (ref_count fresh_binding) [Acquire, Acquire, Release, Release, Release]"
    by (simp add: fresh_binding_ref_count)
  have p: "0 < ref_count fresh_binding"
    by (simp add: fresh_binding_ref_count)
  from finalizer_runs_once_at_zero [OF b p] have
    e: "\<exists>w'. run_operations [Acquire, Acquire, Release, Release, Release] fresh_binding = Inr w' \<and>
          ref_count w' = 0 \<and> finalizer_runs w' = Suc (finalizer_runs fresh_binding)"
    and a: "\<forall>k<length [Acquire, Acquire, Release, Release, Release].
          \<exists>wk. run_operations (take k [Acquire, Acquire, Release, Release, Release]) fresh_binding = Inr wk \<and>
          0 < ref_count wk \<and> finalizer_runs wk = finalizer_runs fresh_binding"
    by blast+
  from a [THEN spec, of 4]
  have "\<exists>wk. run_operations (take 4 [Acquire, Acquire, Release, Release, Release]) fresh_binding = Inr wk \<and>
          0 < ref_count wk \<and> finalizer_runs wk = finalizer_runs fresh_binding"
    by simp
  with e b p show ?thesis
    by (simp add: fresh_binding_finalizer_runs)
qed

section \<open>Close: idempotence and frame\<close>

lemma s_close_binding_idem:
  "s_close_binding env (s_close_binding env w) = s_close_binding env w"
  by (simp add: s_close_binding_def emit_def delete_reference_def Let_def)

lemma close_idem:
  "snd (aws_napi_event_stream_client_connection_close env info
         (snd (aws_napi_event_stream_client_connection_close env info w))) =
   snd (aws_napi_event_stream_client_connection_close env info w)"
  by (simp add: aws_napi_event_stream_client_connection_close_def s_close_binding_idem
      split: list.splits napi_value.splits option.splits)

lemma close_result_same:
  "fst (aws_napi_event_stream_client_connection_close env info w') =
   fst (aws_napi_event_stream_client_connection_close env info w)"
  by (simp add: aws_napi_event_stream_client_connection_close_def
      split: list.splits napi_value.splits option.splits)

lemma funpow_idem:
  assumes "\<And>x. f (f x) = f x"
  shows "(f ^^ Suc n) x = f x"
  by (induction n) (simp_all add: assms)

text \<open>
  C9. For every binding state (also a closed or abandoned one), every host context
  and every argument list, calling the exported close \<open>n > 0\<close> times leaves the same
  world (binding fields and trace of effects) as calling it once, and every one of
  the calls hands the host the same result as the first. The same holds for the
  internal \<^verbatim>\<open>s_close_binding\<close>, with or without a host context.
\<close>

theorem close_idempotent:
  "0 < n \<Longrightarrow>
     ((\<lambda>x. snd (aws_napi_event_stream_client_connection_close env info x)) ^^ n) w =
       snd (aws_napi_event_stream_client_connection_close env info w) \<and>
     fst (aws_napi_event_stream_client_connection_close env info
           (((\<lambda>x. snd (aws_napi_event_stream_client_connection_close env info x)) ^^ k) w)) =
       fst (aws_napi_event_stream_client_connection_close env info w) \<and>
     (s_close_binding e ^^ n) w = s_close_binding e w"
proof -
  assume "0 < n"
  then obtain m where n: "n = Suc m" by (cases n) simp_all
  have a: "((\<lambda>x. snd (aws_napi_event_stream_client_connection_close env info x)) ^^ Suc m) w =
       snd (aws_napi_event_stream_client_connection_close env info w)"
    by (rule funpow_idem) (rule close_idem)
  have b: "(s_close_binding e ^^ Suc m) w = s_close_binding e w"
    by (rule funpow_idem) (rule s_close_binding_idem)
  from a b n show ?thesis
    using close_result_same by blast
qed

theorem close_idempotent_witness:
  "(0::nat) < 3 \<and>
   ((\<lambda>x. snd (aws_napi_event_stream_client_connection_close host_env
                 [JsExternal (Some binding_ptr)] x)) ^^ 3) fresh_binding =
     snd (aws_napi_event_stream_client_connection_close host_env
            [JsExternal (Some binding_ptr)] fresh_binding) \<and>
   is_closed (snd (aws_napi_event_stream_client_connection_close host_env
            [JsExternal (Some binding_ptr)] fresh_binding))"
proof -
  have "(0::nat) < 3" by simp
  from close_idempotent [OF this, of host_env "[JsExternal (Some binding_ptr)]" fresh_binding]
  show ?thesis
    by (simp add: aws_napi_event_stream_client_connection_close_def host_env_def
        s_close_binding_def emit_def Let_def)
qed

lemma s_close_binding_frame:
  "s_close_binding env w =
     w\<lparr>is_closed := True,
       node_event_stream_client_connection_external_ref := None,
       node_event_stream_client_connection_ref := None,
       trace := trace (s_close_binding env w)\<rparr>"
  by (simp add: s_close_binding_def emit_def Let_def)

text \<open>
  C10. For every binding state, host context and argument list, the world after the
  exported close is the world before it with at most the closed flag, the two host
  reference fields and the trace changed: the connection field, the three
  dispatcher handles, the cached configuration (host, port, socket options, TLS
  options and flag) and the reference count are what they were.
\<close>

theorem close_frame:
  "snd (aws_napi_event_stream_client_connection_close env info w) =
     w\<lparr>is_closed := is_closed (snd (aws_napi_event_stream_client_connection_close env info w)),
       node_event_stream_client_connection_external_ref :=
         node_event_stream_client_connection_external_ref
           (snd (aws_napi_event_stream_client_connection_close env info w)),
       node_event_stream_client_connection_ref :=
         node_event_stream_client_connection_ref
           (snd (aws_napi_event_stream_client_connection_close env info w)),
       trace := trace (snd (aws_napi_event_stream_client_connection_close env info w))\<rparr> \<and>
   connection (snd (aws_napi_event_stream_client_connection_close env info w)) = connection w \<and>
   on_connection_setup (snd (aws_napi_event_stream_client_connection_close env info w)) =
     on_connection_setup w \<and>
   on_connection_shutdown (snd (aws_napi_event_stream_client_connection_close env info w)) =
     on_connection_shutdown w \<and>
   on_protocol_message (snd (aws_napi_event_stream_client_connection_close env info w)) =
     on_protocol_message w \<and>
   host (snd (aws_napi_event_stream_client_connection_close env info w)) = host w \<and>
   port (snd (aws_napi_event_stream_client_connection_close env info w)) = port w \<and>
   socket_options (snd (aws_napi_event_stream_client_connection_close env info w)) =
     socket_options w \<and>
   tls_connection_options (snd (aws_napi_event_stream_client_connection_close env info w)) =
     tls_connection_options w \<and>
   using_tls (snd (aws_napi_event_stream_client_connection_close env info w)) = using_tls w \<and>
   ref_count (snd (aws_napi_event_stream_client_connection_close env info w)) = ref_count w"
  by (simp add: aws_napi_event_stream_client_connection_close_def s_close_binding_def
      emit_def Let_def split: list.splits napi_value.splits option.splits)

end
